theory Spec2Isabelle
  imports Complex_Main "HOL-Library.Log_Nat"
begin

section \<open>Numbers\<close>

text \<open>
  The planner computes with \<^verbatim>\<open>double\<close>, \<^verbatim>\<open>size_t\<close>, \<^verbatim>\<open>int\<close> and \<^verbatim>\<open>unsigned int\<close>.
  A \<^verbatim>\<open>double\<close> is modelled as a real number. Rounding is written out where a rounded
  value is truncated or floored to an index or a count, so that the rounding decides a
  discrete result: in the constructor from a duration and in \<open>fillInFromTrajectory\<close>.
  Elsewhere the arithmetic of doubles is the arithmetic of reals. A \<^verbatim>\<open>size_t\<close> is a
  natural number below \<open>2 ^ 64\<close>, an
  \<^verbatim>\<open>unsigned int\<close> one below \<open>2 ^ 32\<close>, an \<^verbatim>\<open>int\<close> an integer in
  \<open>[- 2 ^ 31, 2 ^ 31)\<close>; the conversions between them are the modular ones.
\<close>

definition to_size_t :: "int \<Rightarrow> nat" where
  "to_size_t x = nat (x mod 2 ^ 64)"


definition to_int :: "nat \<Rightarrow> int" where
  "to_int n = (int n + 2 ^ 31) mod 2 ^ 32 - 2 ^ 31"

text \<open>
  \<^verbatim>\<open>static_cast<size_t>(x)\<close> of a double truncates towards zero and is defined only when
  the truncated value is a \<^verbatim>\<open>size_t\<close>; \<open>None\<close> stands for the undefined cast.
\<close>

definition static_cast_size_t :: "real \<Rightarrow> nat option" where
  "static_cast_size_t x = (if - 1 < x \<and> x < 2 ^ 64 then Some (nat \<lfloor>x\<rfloor>) else None)"

subsection \<open>Rounding to a double\<close>

text \<open>
  The result of a division or product of doubles, and of the conversion of a \<^verbatim>\<open>size_t\<close>
  to a double, is the exact result rounded to the nearest number with a significand of
  53 bits, ties to the even significand (IEEE 754 binary64, the default rounding). The
  range of the exponent is not bounded here: there is no overflow to infinity and no
  gradual underflow. Neither changes a floor or a truncation of a non-negative result
  below \<open>2 ^ 64\<close>, which is all that the rounded values are used for.

  The exponent of a positive real is the integer \<open>e\<close> with \<open>2 ^ e \<le> x < 2 ^ (e + 1)\<close>.
\<close>

definition exponent :: "real \<Rightarrow> int" where
  "exponent x = (if 1 \<le> x then bitlen \<lfloor>x\<rfloor> - 1 else - bitlen (\<lceil>1 / x\<rceil> - 1))"

definition two_to :: "int \<Rightarrow> real" where
  "two_to e = (if 0 \<le> e then 2 ^ nat e else 1 / 2 ^ nat (- e))"

definition round_half_even :: "real \<Rightarrow> int" where
  "round_half_even y =
     (if y - of_int \<lfloor>y\<rfloor> < 1 / 2 then \<lfloor>y\<rfloor>
      else if 1 / 2 < y - of_int \<lfloor>y\<rfloor> then \<lfloor>y\<rfloor> + 1
      else if even \<lfloor>y\<rfloor> then \<lfloor>y\<rfloor> else \<lfloor>y\<rfloor> + 1)"

definition round_double :: "real \<Rightarrow> real" where
  "round_double x =
     (if x = 0 then 0
      else sgn x * two_to (exponent \<bar>x\<bar> - 52)
             * of_int (round_half_even (\<bar>x\<bar> / two_to (exponent \<bar>x\<bar> - 52))))"


definition double_div :: "real \<Rightarrow> real \<Rightarrow> real" where
  "double_div a b = round_double (a / b)"


section \<open>The trajectory buffer\<close>

type_synonym matrix = "nat \<Rightarrow> nat \<Rightarrow> real"

record ChompTrajectory =
  planning_group_name :: string
  num_points :: nat
  num_joints :: nat
  discretization :: real
  duration :: real
  trajectory :: matrix
  start_index :: nat
  end_index :: nat
  full_trajectory_index :: "nat list"

text \<open>
  \<open>init\<close> resizes the matrix to \<open>num_points \<times> num_joints\<close>. The resize does not
  initialise the entries: \<open>raw\<close> is whatever the fresh storage holds.
\<close>

definition init :: "matrix \<Rightarrow> ChompTrajectory \<Rightarrow> ChompTrajectory" where
  "init raw t = t\<lparr>trajectory := raw\<rparr>"

text \<open>
  The constructor from a number of points. \<open>njoints\<close> is the number of active joints of
  the planning group in the robot model.
\<close>

definition ChompTrajectory_points ::
  "nat \<Rightarrow> matrix \<Rightarrow> nat \<Rightarrow> real \<Rightarrow> string \<Rightarrow> ChompTrajectory" where
  "ChompTrajectory_points njoints raw npoints disc group_name =
     init raw
       \<lparr>planning_group_name = group_name,
        num_points = npoints,
        num_joints = njoints,
        discretization = disc,
        duration = real (to_size_t (int npoints - 1)) * disc,
        trajectory = (\<lambda>_ _. 0),
        start_index = 1,
        end_index = to_size_t (int npoints - 2),
        full_trajectory_index = []\<rparr>"

text \<open>
  The constructor from a duration delegates with
  \<^verbatim>\<open>static_cast<size_t>(duration / discretization) + 1\<close> points. The quotient is a
  double, the exact quotient rounded, and it is the rounded quotient that is truncated.
  A zero discretization makes the quotient infinite or not a number, for which the cast
  is undefined.
\<close>

definition ChompTrajectory_duration ::
  "nat \<Rightarrow> matrix \<Rightarrow> real \<Rightarrow> real \<Rightarrow> string \<Rightarrow> ChompTrajectory option" where
  "ChompTrajectory_duration njoints raw dur disc group_name =
     (if disc = 0 then None
      else case static_cast_size_t (double_div dur disc) of
             None \<Rightarrow> None
           | Some n \<Rightarrow>
               Some (ChompTrajectory_points njoints raw (to_size_t (int n + 1)) disc group_name))"

subsection \<open>The padded copy\<close>

text \<open>Arithmetic on \<^verbatim>\<open>size_t\<close> wraps modulo \<open>2 ^ 64\<close>.\<close>

definition size_t_add :: "nat \<Rightarrow> nat \<Rightarrow> nat" where
  "size_t_add a b = to_size_t (int a + int b)"

definition size_t_sub :: "nat \<Rightarrow> nat \<Rightarrow> nat" where
  "size_t_sub a b = to_size_t (int a - int b)"

text \<open>The row accessor.\<close>

definition getTrajectoryPoint :: "ChompTrajectory \<Rightarrow> nat \<Rightarrow> nat \<Rightarrow> real" where
  "getTrajectoryPoint t i = trajectory t i"

text \<open>
  The copy constructor for the optimizer's working buffer takes a source buffer and the
  length of the finite-difference rule. Its locals \<^verbatim>\<open>start_extra\<close> and \<^verbatim>\<open>end_extra\<close>
  are \<^verbatim>\<open>int\<close>s computed from an \<^verbatim>\<open>int\<close> and \<^verbatim>\<open>size_t\<close> fields: the difference is
  taken in \<^verbatim>\<open>size_t\<close> and converted back.
\<close>

definition start_extra :: "ChompTrajectory \<Rightarrow> int \<Rightarrow> int" where
  "start_extra source_traj diff_rule_length =
     to_int (size_t_sub (to_size_t (diff_rule_length - 1)) (start_index source_traj))"

definition end_extra :: "ChompTrajectory \<Rightarrow> int \<Rightarrow> int" where
  "end_extra source_traj diff_rule_length =
     to_int (size_t_sub (to_size_t (diff_rule_length - 1))
               (size_t_sub (size_t_sub (num_points source_traj) 1) (end_index source_traj)))"

text \<open>
  One round of the copy loop: the source index for row \<open>i\<close> is \<^verbatim>\<open>i - start_extra\<close>,
  raised to 0 when negative and lowered to the last source index when too large; the index
  is recorded and the source row is assigned to row \<open>i\<close>.
\<close>

definition source_traj_point :: "ChompTrajectory \<Rightarrow> int \<Rightarrow> nat \<Rightarrow> int" where
  "source_traj_point source_traj s_extra i =
     (let p = to_int (size_t_sub i (to_size_t s_extra));
          p = (if p < 0 then 0 else p);
          p = (if num_points source_traj \<le> to_size_t p
               then to_int (size_t_sub (num_points source_traj) 1) else p)
      in p)"

definition copy_point :: "ChompTrajectory \<Rightarrow> int \<Rightarrow> nat \<Rightarrow> ChompTrajectory \<Rightarrow> ChompTrajectory" where
  "copy_point source_traj s_extra i t =
     (let p = source_traj_point source_traj s_extra i
      in t\<lparr>full_trajectory_index := (full_trajectory_index t)[i := to_size_t p],
           trajectory := (trajectory t)(i := getTrajectoryPoint source_traj (to_size_t p))\<rparr>)"

definition ChompTrajectory_padded ::
  "matrix \<Rightarrow> ChompTrajectory \<Rightarrow> string \<Rightarrow> int \<Rightarrow> ChompTrajectory" where
  "ChompTrajectory_padded raw source_traj group_name diff_rule_length =
     (let s_extra = start_extra source_traj diff_rule_length;
          e_extra = end_extra source_traj diff_rule_length;
          np = size_t_add (size_t_add (num_points source_traj) (to_size_t s_extra))
                 (to_size_t e_extra);
          t = init raw
                \<lparr>planning_group_name = group_name,
                 num_points = np,
                 num_joints = num_joints source_traj,
                 discretization = discretization source_traj,
                 duration = real (size_t_sub np 1) * discretization source_traj,
                 trajectory = (\<lambda>_ _. 0),
                 start_index = to_size_t (diff_rule_length - 1),
                 end_index = size_t_sub (size_t_sub np 1) (to_size_t (diff_rule_length - 1)),
                 full_trajectory_index = replicate np 0\<rparr>
      in fold (copy_point source_traj s_extra) [0..<np] t)"

text \<open>The clamp of the specification, to state what the copy loop computes.\<close>

definition clamp :: "int \<Rightarrow> int \<Rightarrow> int \<Rightarrow> int" where
  "clamp x lo hi = (if x < lo then lo else if hi < x then hi else x)"

text \<open>A small un-padded buffer of five points, whose row \<open>i\<close> holds the value \<open>i\<close>.\<close>

definition five_points :: ChompTrajectory where
  "five_points = ChompTrajectory_points 1 (\<lambda>i j. real i) 5 0.1 ''arm''"

subsection \<open>Filling the free interior\<close>

text \<open>
  Each filler reads the two rows just outside the free range, \<^verbatim>\<open>start_index_ - 1\<close> and
  \<^verbatim>\<open>end_index_ + 1\<close>, and writes the rows strictly between them. \<open>set_entry\<close> is the
  assignment \<^verbatim>\<open>(*this)(i, j) = v\<close>.
\<close>

definition set_entry :: "nat \<Rightarrow> nat \<Rightarrow> real \<Rightarrow> ChompTrajectory \<Rightarrow> ChompTrajectory" where
  "set_entry i j v t = t\<lparr>trajectory := (trajectory t)(i := (trajectory t i)(j := v))\<rparr>"

definition fillInLinearInterpolation :: "ChompTrajectory \<Rightarrow> ChompTrajectory" where
  "fillInLinearInterpolation t =
     (let s_index = size_t_sub (start_index t) 1;
          e_index = size_t_add (end_index t) 1
      in fold (\<lambda>i t.
           let theta = (trajectory t e_index i - trajectory t s_index i) / (real e_index - 1)
           in fold (\<lambda>j t. set_entry j i (trajectory t s_index i + real j * theta) t)
                [s_index + 1..<e_index] t)
         [0..<num_joints t] t)"

definition fillInCubicInterpolation :: "ChompTrajectory \<Rightarrow> ChompTrajectory" where
  "fillInCubicInterpolation t =
     (let s_index = size_t_sub (start_index t) 1;
          e_index = size_t_add (end_index t) 1;
          dt = 0.001;
          total_time = (real e_index - 1) * dt
      in fold (\<lambda>i t.
           let c0 = trajectory t s_index i;
               c2 = (3 / total_time ^ 2) * (trajectory t e_index i - trajectory t s_index i);
               c3 = (- 2 / total_time ^ 3) * (trajectory t e_index i - trajectory t s_index i)
           in fold (\<lambda>j t. set_entry j i (c0 + c2 * (real j * dt) ^ 2 + c3 * (real j * dt) ^ 3) t)
                [s_index + 1..<e_index] t)
         [0..<num_joints t] t)"

text \<open>
  The tables \<^verbatim>\<open>td\<close> and \<^verbatim>\<open>ti\<close> hold the powers of a time, built by
  \<^verbatim>\<open>td[i] = td[i - 1] * td[1]\<close>.
\<close>

fun powers :: "real \<Rightarrow> nat \<Rightarrow> real" where
  "powers x 0 = 1"
| "powers x (Suc 0) = x"
| "powers x (Suc (Suc k)) = powers x (Suc k) * x"

text \<open>
  The coefficients of the quintic of joint \<open>i\<close>, for zero velocity and acceleration at both
  ends.
\<close>

definition coeff :: "ChompTrajectory \<Rightarrow> nat \<Rightarrow> nat \<Rightarrow> real" where
  "coeff t i =
     (let s_index = size_t_sub (start_index t) 1;
          e_index = size_t_add (end_index t) 1;
          td = powers ((real e_index - real s_index) * discretization t);
          x0 = trajectory t s_index i;
          x1 = trajectory t e_index i
      in (\<lambda>k. 0)
          (0 := x0, 1 := 0, 2 := 0,
           3 := (- 20 * x0 + 20 * x1) / (2 * td 3),
           4 := (30 * x0 - 30 * x1) / (2 * td 4),
           5 := (- 12 * x0 + 12 * x1) / (2 * td 5)))"

text \<open>
  The value written to a point: it is set to zero, then the six products
  \<^verbatim>\<open>ti[k] * coeff[j][k]\<close> are added.
\<close>

definition spline_value :: "(nat \<Rightarrow> real) \<Rightarrow> (nat \<Rightarrow> real) \<Rightarrow> real" where
  "spline_value ti c = fold (\<lambda>k acc. acc + ti k * c k) [0..<6] 0"

definition fill_point :: "(nat \<Rightarrow> nat \<Rightarrow> real) \<Rightarrow> nat \<Rightarrow> nat \<Rightarrow> ChompTrajectory \<Rightarrow> ChompTrajectory" where
  "fill_point c s_index i t =
     (let ti = powers ((real i - real s_index) * discretization t)
      in fold (\<lambda>j t. set_entry i j (spline_value ti (c j)) t) [0..<num_joints t] t)"

definition fillInMinJerk :: "ChompTrajectory \<Rightarrow> ChompTrajectory" where
  "fillInMinJerk t =
     (let s_index = size_t_sub (start_index t) 1;
          e_index = size_t_add (end_index t) 1;
          c = coeff t
      in fold (fill_point c s_index) [s_index + 1..<e_index] t)"

text \<open>
  To state what the filler computes: the polynomial with coefficients \<open>c\<close>, and the
  polynomials that are its first and second derivative.
\<close>

definition quintic :: "(nat \<Rightarrow> real) \<Rightarrow> real \<Rightarrow> real" where
  "quintic c x = (\<Sum>k<6. c k * x ^ k)"

definition quintic' :: "(nat \<Rightarrow> real) \<Rightarrow> real \<Rightarrow> real" where
  "quintic' c x = (\<Sum>k<5. real (k + 1) * c (k + 1) * x ^ k)"

definition quintic'' :: "(nat \<Rightarrow> real) \<Rightarrow> real \<Rightarrow> real" where
  "quintic'' c x = (\<Sum>k<4. real (k + 1) * real (k + 2) * c (k + 2) * x ^ k)"

text \<open>A five-point buffer of one joint that starts at 0 and ends at 1.\<close>

definition rest_to_one :: ChompTrajectory where
  "rest_to_one = ChompTrajectory_points 1 (\<lambda>i j. if i = 4 then 1 else 0) 5 0.1 ''arm''"

section \<open>The planner\<close>

subsection \<open>Collaborators\<close>

record RobotState =
  position :: "nat \<Rightarrow> real"
  velocity :: "nat \<Rightarrow> real"

definition setVariablePosition :: "nat \<Rightarrow> real \<Rightarrow> RobotState \<Rightarrow> RobotState" where
  "setVariablePosition v x st = st\<lparr>position := (position st)(v := x)\<rparr>"

definition setVariableVelocity :: "nat \<Rightarrow> real \<Rightarrow> RobotState \<Rightarrow> RobotState" where
  "setVariableVelocity v x st = st\<lparr>velocity := (velocity st)(v := x)\<rparr>"

text \<open>
  A joint model is a revolute joint, continuous or not, or a joint of another kind: the
  planner tells them apart by a dynamic cast and \<^verbatim>\<open>isContinuous()\<close>.
\<close>

datatype JointType = RevoluteJointModel bool | OtherJointModel

record JointModel =
  getName :: string
  getFirstVariableIndex :: nat
  getJointIndex :: nat
  getVariableCount :: nat
  joint_type :: JointType

record JointConstraint =
  joint_name :: string
  goal_position :: real

record Constraints =
  joint_constraints :: "JointConstraint list"
  position_constraints :: "unit list"
  orientation_constraints :: "unit list"

record MotionPlanRequest =
  group_name :: string
  goal_constraints :: "Constraints list"

text \<open>
  The planning scene: the current state, the conversion of the request's start state onto
  it, the active joints of a group, the variable of a joint name, and the bounds check.
\<close>

record PlanningScene =
  getCurrentState :: RobotState
  robotStateMsgToRobotState :: "RobotState \<Rightarrow> RobotState"
  getActiveJointModels :: "string \<Rightarrow> JointModel list"
  getVariableIndex :: "string \<Rightarrow> nat"
  satisfiesBounds :: "RobotState \<Rightarrow> bool"

datatype MoveItErrorCodes =
  SUCCESS | FAILURE | PLANNING_FAILED | INVALID_MOTION_PLAN | INVALID_ROBOT_STATE
  | INVALID_GOAL_CONSTRAINTS | GOAL_CONSTRAINTS_VIOLATED

text \<open>A robot trajectory is a list of way points, each with its duration from the previous one.\<close>

type_synonym RobotTrajectory = "(RobotState \<times> real) list"

definition addSuffixWayPoint :: "RobotState \<Rightarrow> real \<Rightarrow> RobotTrajectory \<Rightarrow> RobotTrajectory" where
  "addSuffixWayPoint st dt tr = tr @ [(st, dt)]"

record MotionPlanDetailedResponse =
  res_trajectory :: "RobotTrajectory list"
  res_processing_time :: "real list"
  res_error_code :: MoveItErrorCodes

text \<open>
  The sum of two \<^verbatim>\<open>int\<close>s. A sum outside \<open>[- 2 ^ 31, 2 ^ 31)\<close> is undefined in C++;
  on the usual targets it wraps, and so does the model.
\<close>

definition add_int :: "int \<Rightarrow> int \<Rightarrow> int" where
  "add_int a b = (a + b + 2 ^ 31) mod 2 ^ 32 - 2 ^ 31"

record ChompParameters =
  planning_time_limit :: real
  max_iterations :: int
  learning_rate :: real
  ridge_factor :: real
  enable_failure_recovery :: bool
  max_recovery_attempts :: int
  trajectory_initialization_method :: string
  demo_type :: string

text \<open>
  Modelled from the spec: \<open>setRecoveryParams\<close>, whose body is not among the sources. It
  stores the four escalated values and nothing else.
\<close>

definition setRecoveryParams ::
  "real \<Rightarrow> real \<Rightarrow> real \<Rightarrow> int \<Rightarrow> ChompParameters \<Rightarrow> ChompParameters" where
  "setRecoveryParams lr rf ptl mi p =
     p\<lparr>learning_rate := lr, ridge_factor := rf, planning_time_limit := ptl,
       max_iterations := mi\<rparr>"

text \<open>
  One optimizer, built on a trajectory with a parameter set: whether it initialised, and,
  once \<^verbatim>\<open>optimize()\<close> has run, its result, the entries of the trajectory as the optimizer
  left them and whether that is free of collisions. The optimizer works on the trajectory
  in place; it writes entries of the matrix and nothing else of the buffer.
\<close>

record Optimizer =
  isInitialized :: bool
  optimize :: bool
  optimized :: matrix
  isCollisionFree :: bool

text \<open>
  What \<open>solve\<close> gets from outside this file: the optimizer, indexed by the number of
  optimizers built before it in this call; the finite-difference matrix for a number of
  points; the matrix read from a file; the joint-constraint evaluator; the content of fresh
  matrix storage; the wall time spent.
\<close>

record Collaborators =
  new_ChompOptimizer :: "nat \<Rightarrow> ChompParameters \<Rightarrow> ChompTrajectory \<Rightarrow> Optimizer"
  getDiffMatrix :: "nat \<Rightarrow> matrix"
  csvRead :: "string \<Rightarrow> matrix"
  configure :: "JointConstraint \<Rightarrow> bool"
  decide :: "JointConstraint \<Rightarrow> RobotState \<Rightarrow> bool"
  fresh_storage :: matrix
  wall_time :: real

text \<open>
  Modelled from the spec: \<open>robotStateToArray\<close>, whose body is not among the sources. It
  projects the positions of the group's active joints, in their order, onto a row.
\<close>

definition robotStateToArray ::
  "JointModel list \<Rightarrow> RobotState \<Rightarrow> nat \<Rightarrow> ChompTrajectory \<Rightarrow> ChompTrajectory" where
  "robotStateToArray joints st i t =
     t\<lparr>trajectory := (trajectory t)
         (i := (\<lambda>j. if j < length joints then position st (getFirstVariableIndex (joints ! j))
                     else trajectory t i j))\<rparr>"

text \<open>
  Modelled from the spec: \<open>setTrajectory\<close>, whose body is not among the sources. It
  replaces the matrix.
\<close>

definition setTrajectory :: "matrix \<Rightarrow> ChompTrajectory \<Rightarrow> ChompTrajectory" where
  "setTrajectory m t = t\<lparr>trajectory := m\<rparr>"

text \<open>
  Modelled from the spec: \<open>shortestAngularDistance\<close>, whose body is not among the
  sources. It is the signed value in \<open>(-\<pi>, \<pi>]\<close> that differs from \<open>goal - start\<close> by a
  multiple of \<open>2\<pi>\<close>.
\<close>

definition shortestAngularDistance :: "real \<Rightarrow> real \<Rightarrow> real" where
  "shortestAngularDistance start goal =
     (goal - start) - 2 * pi * of_int \<lceil>((goal - start) - pi) / (2 * pi)\<rceil>"

subsection \<open>Goal adjustment and initial fill\<close>

definition fix_goal :: "JointModel list \<Rightarrow> nat \<Rightarrow> nat \<Rightarrow> ChompTrajectory \<Rightarrow> ChompTrajectory" where
  "fix_goal joints goal_index i t =
     (case joint_type (joints ! i) of
        RevoluteJointModel True \<Rightarrow>
          (let start = trajectory t 0 i;
               goal = trajectory t goal_index i
           in set_entry goal_index i (start + shortestAngularDistance start goal) t)
      | _ \<Rightarrow> t)"

definition fill_pathname :: "ChompParameters \<Rightarrow> string" where
  "fill_pathname params =
     ''/home/deng/ros/ws_moveit/src/moveit/moveit_planners/resource/average_datas/Pdtw_''
       @ demo_type params @ ''_forward_'' @ ''average.csv''"

text \<open>
  The initial fill, chosen by the configured method. The second component holds the error
  that is logged when the method is none of the four.
\<close>

definition initial_fill ::
  "Collaborators \<Rightarrow> ChompParameters \<Rightarrow> ChompTrajectory \<Rightarrow> ChompTrajectory \<times> string list" where
  "initial_fill ext params t =
     (if trajectory_initialization_method params = ''quintic-spline'' then (fillInMinJerk t, [])
      else if trajectory_initialization_method params = ''linear''
        then (fillInLinearInterpolation t, [])
      else if trajectory_initialization_method params = ''cubic''
        then (fillInCubicInterpolation t, [])
      else if trajectory_initialization_method params = ''equal''
        then (setTrajectory (csvRead ext (fill_pathname params)) t, [])
      else (t, [''invalid interpolation method specified in the chomp_planner file'']))"

subsection \<open>The recovery loop\<close>

text \<open>
  The state of the loop is the working copy of the parameters, \<^verbatim>\<open>replan_count\<close>,
  \<^verbatim>\<open>replan_flag\<close> and the trajectory, which every optimizer works on in place. The loop
  is left by the return after an optimizer that did not initialise (\<open>optimizer_ready\<close> is
  false) or by a \<^verbatim>\<open>break\<close>. \<open>tried\<close> is not in the code: it records the parameters each
  optimizer was built with, to count the attempts.
\<close>

record Replan =
  optimizer_ready :: bool
  params_nonconst :: ChompParameters
  replan_count :: int
  optimizer :: Optimizer
  optimizer_trajectory :: ChompTrajectory
  tried :: "ChompParameters list"

function replan_loop ::
  "(nat \<Rightarrow> ChompParameters \<Rightarrow> ChompTrajectory \<Rightarrow> Optimizer) \<Rightarrow> ChompParameters \<Rightarrow> int \<Rightarrow> bool
     \<Rightarrow> ChompTrajectory \<Rightarrow> ChompParameters list \<Rightarrow> Replan" where
  "replan_loop new_opt p count flag t built =
     (let p = (if flag
               then setRecoveryParams (learning_rate p + 0.02) (ridge_factor p + 0.002)
                      (planning_time_limit p + 5) (add_int (max_iterations p) 50) p
               else p);
          opt = new_opt (length built) p t;
          built = built @ [p]
      in if \<not> isInitialized opt
         then \<lparr>optimizer_ready = False, params_nonconst = p, replan_count = count,
               optimizer = opt, optimizer_trajectory = t, tried = built\<rparr>
         else if enable_failure_recovery p
           then if \<not> optimize opt \<and> count < max_recovery_attempts p
                then replan_loop new_opt p (count + 1) True (t\<lparr>trajectory := optimized opt\<rparr>) built
                else \<lparr>optimizer_ready = True, params_nonconst = p, replan_count = count,
                      optimizer = opt,
                      optimizer_trajectory = t\<lparr>trajectory := optimized opt\<rparr>, tried = built\<rparr>
           else \<lparr>optimizer_ready = True, params_nonconst = p, replan_count = count,
                 optimizer = opt,
                 optimizer_trajectory = t\<lparr>trajectory := optimized opt\<rparr>, tried = built\<rparr>)"
  by pat_completeness auto
termination
  by (relation "measure (\<lambda>(new_opt, p, count, flag, t, built). nat (max_recovery_attempts p - count))")
    (auto simp add: setRecoveryParams_def split: if_splits)

declare replan_loop.simps [simp del]

text \<open>
  To state what the loop does to the parameters between two optimizers: the four additions
  of the call of \<open>setRecoveryParams\<close> in the loop.
\<close>

definition escalated :: "ChompParameters \<Rightarrow> ChompParameters" where
  "escalated p = p\<lparr>learning_rate := learning_rate p + 0.02, ridge_factor := ridge_factor p + 0.002,
       planning_time_limit := planning_time_limit p + 5, max_iterations := add_int (max_iterations p) 50\<rparr>"

subsection \<open>The output trajectory\<close>

text \<open>
  The velocity of joint \<open>j\<close> at row \<open>i\<close>: the product of row \<open>i\<close> of the
  finite-difference matrix with the column of positions of joint \<open>j\<close>.
\<close>

definition velocity_matrix :: "matrix \<Rightarrow> ChompTrajectory \<Rightarrow> matrix" where
  "velocity_matrix diff_matrix t i j =
     (\<Sum>k<num_points t. diff_matrix i k * trajectory t k j)"

definition initial_vel :: "real list" where
  "initial_vel = replicate 7 0.0"

text \<open>
  The loop over the active joints for way point \<open>i\<close>: it sets the position of each joint
  from the row and its velocity from \<open>initial_vel\<close> on the first and last way point, from
  the velocity matrix otherwise. \<open>initial_vel\<close> has seven entries; reading it further is
  undefined, which is \<open>None\<close>.
\<close>

fun set_joints ::
  "matrix \<Rightarrow> ChompTrajectory \<Rightarrow> nat \<Rightarrow> nat \<Rightarrow> JointModel list \<Rightarrow> nat \<Rightarrow> nat \<Rightarrow> RobotState
     \<Rightarrow> RobotState option" where
  "set_joints vm t num_point i [] joint_index vel_index state = Some state"
| "set_joints vm t num_point i (jm # jms) joint_index vel_index state =
     (let state = setVariablePosition (getFirstVariableIndex jm)
                    (getTrajectoryPoint t i joint_index) state
      in if i = 0 \<or> i = size_t_sub num_point 1
         then if vel_index < length initial_vel
              then set_joints vm t num_point i jms (joint_index + 1) (vel_index + 1)
                     (setVariableVelocity (getFirstVariableIndex jm) (initial_vel ! vel_index) state)
              else None
         else set_joints vm t num_point i jms (joint_index + 1) (vel_index + 1)
                (setVariableVelocity (getFirstVariableIndex jm) (vm i vel_index) state))"

text \<open>The loop over the points: each way point is a copy of the start state, added with 0.1.\<close>

fun fill_result ::
  "matrix \<Rightarrow> ChompTrajectory \<Rightarrow> nat \<Rightarrow> JointModel list \<Rightarrow> RobotState \<Rightarrow> nat list
     \<Rightarrow> RobotTrajectory \<Rightarrow> RobotTrajectory option" where
  "fill_result vm t num_point joints start_state [] result = Some result"
| "fill_result vm t num_point joints start_state (i # is) result =
     (case set_joints vm t num_point i joints 0 0 start_state of
        None \<Rightarrow> None
      | Some state \<Rightarrow>
          fill_result vm t num_point joints start_state is (addSuffixWayPoint state 0.1 result))"

definition output_trajectory ::
  "matrix \<Rightarrow> ChompTrajectory \<Rightarrow> JointModel list \<Rightarrow> RobotState \<Rightarrow> RobotTrajectory option" where
  "output_trajectory diff_matrix t joints start_state =
     (let num_point = num_points t;
          vm = velocity_matrix diff_matrix t
      in fill_result vm t num_point joints start_state [0..<num_points t] [])"

subsection \<open>solve\<close>

text \<open>
  What a call of \<open>solve\<close> leaves behind: the value returned, the response, the errors
  logged, the caller's parameter set, which \<open>solve\<close> takes by constant reference, and
  the working copy of the parameters as it is at the return, if it was made.
\<close>

record Solved =
  returned :: bool
  res :: MotionPlanDetailedResponse
  errors :: "string list"
  params_after :: ChompParameters
  working_params :: "ChompParameters option"

definition failed ::
  "MoveItErrorCodes \<Rightarrow> string list \<Rightarrow> MotionPlanDetailedResponse \<Rightarrow> ChompParameters
     \<Rightarrow> ChompParameters option \<Rightarrow> Solved" where
  "failed code msgs r params working =
     \<lparr>returned = False, res = r\<lparr>res_error_code := code\<rparr>, errors = msgs,
      params_after = params, working_params = working\<rparr>"

text \<open>
  The first part of \<open>solve\<close>, up to the goal adjustment: either an early return or the
  buffer with its two boundary rows set.
\<close>

definition solve_trajectory ::
  "Collaborators \<Rightarrow> PlanningScene \<Rightarrow> MotionPlanRequest \<Rightarrow> ChompParameters
     \<Rightarrow> MotionPlanDetailedResponse \<Rightarrow> (Solved + ChompTrajectory) option" where
  "solve_trajectory ext scene req params r =
     (let start_state = robotStateMsgToRobotState scene (getCurrentState scene);
          joints = getActiveJointModels scene (group_name req)
      in if \<not> satisfiesBounds scene start_state
         then Some (Inl (failed INVALID_ROBOT_STATE [''Start state violates joint limits''] r
                           params None))
         else case ChompTrajectory_duration (length joints) (fresh_storage ext) 3.0 0.03409
                     (group_name req) of
                None \<Rightarrow> None
              | Some t \<Rightarrow>
                  (let t = robotStateToArray joints start_state 0 t
                   in if length (goal_constraints req) \<noteq> 1
                      then Some (Inl (failed INVALID_GOAL_CONSTRAINTS
                                        [''Expecting exactly one goal constraint''] r params None))
                      else if joint_constraints (goal_constraints req ! 0) = []
                              \<or> position_constraints (goal_constraints req ! 0) \<noteq> []
                              \<or> orientation_constraints (goal_constraints req ! 0) \<noteq> []
                      then Some (Inl (failed INVALID_GOAL_CONSTRAINTS
                                        [''Only joint-space goals are supported''] r params None))
                      else
                        (let goal_index = size_t_sub (num_points t) 1;
                             goal_state =
                               fold (\<lambda>c. setVariablePosition
                                            (getVariableIndex scene (joint_name c))
                                            (goal_position c))
                                 (joint_constraints (goal_constraints req ! 0)) start_state
                         in if \<not> satisfiesBounds scene goal_state
                            then Some (Inl (failed INVALID_ROBOT_STATE
                                              [''Goal state violates joint limits''] r params None))
                            else
                              (let t = robotStateToArray joints goal_state goal_index t
                               in Some (Inr (fold (fix_goal joints goal_index)
                                               [0..<length joints] t))))))"

text \<open>The last part of \<open>solve\<close>, from the end of the recovery loop on.\<close>

definition solve_output ::
  "Collaborators \<Rightarrow> MotionPlanRequest \<Rightarrow> ChompParameters \<Rightarrow> MotionPlanDetailedResponse
     \<Rightarrow> JointModel list \<Rightarrow> RobotState \<Rightarrow> string list \<Rightarrow> Replan \<Rightarrow> Solved option" where
  "solve_output ext req params r joints start_state msgs loop =
     (let working = setRecoveryParams (learning_rate params) (ridge_factor params)
                      (planning_time_limit params) (max_iterations params) (params_nonconst loop);
          t = optimizer_trajectory loop
      in case output_trajectory (getDiffMatrix ext (num_points t)) t joints start_state of
           None \<Rightarrow> None
         | Some result \<Rightarrow>
             (let r = r\<lparr>res_trajectory := [result], res_error_code := SUCCESS,
                         res_processing_time := [wall_time ext]\<rparr>
              in if \<not> isCollisionFree (optimizer loop)
                 then Some (failed INVALID_MOTION_PLAN (msgs @ [''Motion plan is invalid.''])
                              r params (Some working))
                 else case find (\<lambda>c. \<not> configure ext c \<or> \<not> decide ext c (fst (last result)))
                             (joint_constraints (goal_constraints req ! 0)) of
                        Some c \<Rightarrow>
                          Some (failed GOAL_CONSTRAINTS_VIOLATED
                                  (msgs @ [''Goal constraints are violated: '' @ joint_name c])
                                  r params (Some working))
                      | None \<Rightarrow>
                          Some \<lparr>returned = True, res = r, errors = msgs, params_after = params,
                                working_params = Some working\<rparr>))"

definition solve ::
  "Collaborators \<Rightarrow> PlanningScene option \<Rightarrow> MotionPlanRequest \<Rightarrow> ChompParameters
     \<Rightarrow> MotionPlanDetailedResponse \<Rightarrow> Solved option" where
  "solve ext planning_scene req params r =
     (case planning_scene of
        None \<Rightarrow> Some (failed FAILURE [''No planning scene initialized.''] r params None)
      | Some scene \<Rightarrow>
          (case solve_trajectory ext scene req params r of
             None \<Rightarrow> None
           | Some (Inl early) \<Rightarrow> Some early
           | Some (Inr t) \<Rightarrow>
               (let (t, msgs) = initial_fill ext params t;
                    loop = replan_loop (new_ChompOptimizer ext) params 0 False t []
                in if \<not> optimizer_ready loop
                   then Some (failed PLANNING_FAILED (msgs @ [''Could not initialize optimizer''])
                                r params (Some (params_nonconst loop)))
                   else solve_output ext req params r
                          (getActiveJointModels scene (group_name req))
                          (robotStateMsgToRobotState scene (getCurrentState scene))
                          msgs loop)))"

text \<open>Parameters that allow two recoveries, and an optimizer that never succeeds.\<close>

definition two_recoveries :: ChompParameters where
  "two_recoveries =
     \<lparr>planning_time_limit = 10, max_iterations = 200, learning_rate = 0.04, ridge_factor = 0,
      enable_failure_recovery = True, max_recovery_attempts = 2,
      trajectory_initialization_method = ''quintic-spline'', demo_type = ''head''\<rparr>"

definition never_succeeds :: "nat \<Rightarrow> ChompParameters \<Rightarrow> ChompTrajectory \<Rightarrow> Optimizer" where
  "never_succeeds k p t =
     \<lparr>isInitialized = True, optimize = False, optimized = trajectory t, isCollisionFree = False\<rparr>"

subsection \<open>A small planning problem\<close>

text \<open>
  One revolute joint that is not continuous, at 3 in the current state, with the goal -3;
  a scene that accepts every state; a response that holds no trajectory yet;
  collaborators that accept every constraint, with a finite-difference matrix whose first
  column is 1 and whose other columns are 0, and with an optimizer given as an argument.
\<close>

definition one_joint :: JointModel where
  "one_joint = \<lparr>getName = ''joint_a'', getFirstVariableIndex = 0, getJointIndex = 0,
                 getVariableCount = 1, joint_type = RevoluteJointModel False\<rparr>"

definition demo_scene :: PlanningScene where
  "demo_scene =
     \<lparr>getCurrentState = \<lparr>position = (\<lambda>_. 3), velocity = (\<lambda>_. 0)\<rparr>,
      robotStateMsgToRobotState = (\<lambda>st. st),
      getActiveJointModels = (\<lambda>_. [one_joint]),
      getVariableIndex = (\<lambda>_. 0),
      satisfiesBounds = (\<lambda>_. True)\<rparr>"

definition demo_request :: MotionPlanRequest where
  "demo_request =
     \<lparr>group_name = ''arm'',
      goal_constraints =
        [\<lparr>joint_constraints = [\<lparr>joint_name = ''joint_a'', goal_position = - 3\<rparr>],
          position_constraints = [], orientation_constraints = []\<rparr>]\<rparr>"

definition demo_response :: MotionPlanDetailedResponse where
  "demo_response = \<lparr>res_trajectory = [], res_processing_time = [], res_error_code = FAILURE\<rparr>"

definition always_succeeds :: "nat \<Rightarrow> ChompParameters \<Rightarrow> ChompTrajectory \<Rightarrow> Optimizer" where
  "always_succeeds k p t =
     \<lparr>isInitialized = True, optimize = True, optimized = trajectory t, isCollisionFree = True\<rparr>"

definition demo_collaborators ::
  "(nat \<Rightarrow> ChompParameters \<Rightarrow> ChompTrajectory \<Rightarrow> Optimizer) \<Rightarrow> Collaborators" where
  "demo_collaborators new_opt =
     \<lparr>new_ChompOptimizer = new_opt,
      getDiffMatrix = (\<lambda>_ _ k. if k = 0 then 1 else 0),
      csvRead = (\<lambda>_ _ _. 0),
      configure = (\<lambda>_. True), decide = (\<lambda>_ _. True), fresh_storage = (\<lambda>_ _. 0),
      wall_time = 1\<rparr>"

definition unknown_method :: ChompParameters where
  "unknown_method = two_recoveries\<lparr>trajectory_initialization_method := ''spline''\<rparr>"

text \<open>Readers of the response, for the statements about the small problem.\<close>

definition way_point_counts :: "Solved \<Rightarrow> nat list" where
  "way_point_counts s = map length (res_trajectory (res s))"

definition way_point :: "nat \<Rightarrow> Solved \<Rightarrow> RobotState \<times> real" where
  "way_point i s = hd (res_trajectory (res s)) ! i"



section \<open>Filling a buffer from a trajectory\<close>

text \<open>
  \<open>fillInFromTrajectory\<close> fills the rows of a buffer from the way points of a robot
  trajectory. \<open>joints\<close> stands for the active joint models of the trajectory's group.
  The function returns false, and writes nothing, for fewer than two way points.
\<close>













section \<open>Rounding\<close>

lemma two_to_pos: "0 < two_to e"
  by (simp add: two_to_def)

lemma two_to_add: "two_to (a + b) = two_to a * two_to b"
proof -
  have p: "two_to e = 2 powr (of_int e)" for e
    by (simp add: two_to_def powr_realpow [symmetric] powr_minus field_simps)
  show ?thesis unfolding p by (simp add: powr_add)
qed

lemma two_to_nat: "two_to (int n) = 2 ^ n"
  by (simp add: two_to_def)

lemma two_to_neg: "two_to (- int n) = 1 / 2 ^ n"
  by (auto simp add: two_to_def)



lemma round_half_even_nonneg: "0 \<le> y \<Longrightarrow> 0 \<le> round_half_even y"
  by (simp add: round_half_even_def)

text \<open>Rounding to an integer does not cross an integer.\<close>

lemma round_half_even_ge:
  assumes "of_int k \<le> y"
  shows "k \<le> round_half_even y"
proof -
  have "k \<le> \<lfloor>y\<rfloor>" using assms by (simp add: le_floor_iff)
  moreover have "\<lfloor>y\<rfloor> \<le> round_half_even y" by (simp add: round_half_even_def)
  ultimately show ?thesis by simp
qed

lemma round_half_even_le:
  assumes "y \<le> of_int k"
  shows "round_half_even y \<le> k"
proof (cases "y = of_int \<lfloor>y\<rfloor>")
  case True
  then have "round_half_even y = \<lfloor>y\<rfloor>"
    by (simp add: round_half_even_def)
  moreover have "\<lfloor>y\<rfloor> \<le> k" using assms by (simp add: floor_le_iff)
  ultimately show ?thesis by simp
next
  case False
  have "of_int \<lfloor>y\<rfloor> \<le> y" by simp
  then have "of_int \<lfloor>y\<rfloor> < y" using False by linarith
  then have "real_of_int \<lfloor>y\<rfloor> < of_int k" using assms by simp
  then have "\<lfloor>y\<rfloor> < k" by (simp only: of_int_less_iff)
  moreover have "round_half_even y \<le> \<lfloor>y\<rfloor> + 1" by (simp add: round_half_even_def)
  ultimately show ?thesis by simp
qed

lemma exponent_le:
  assumes "1 \<le> x"
  shows "two_to (exponent x) \<le> x" "0 \<le> exponent x"
proof -
  have f: "0 < \<lfloor>x\<rfloor>" using assms by simp
  from bitlen_bounds [OF f] have b: "2 ^ nat (bitlen \<lfloor>x\<rfloor> - 1) \<le> \<lfloor>x\<rfloor>" by simp
  have n: "1 \<le> bitlen \<lfloor>x\<rfloor>"
    using f bitlen_nonneg [of "\<lfloor>x\<rfloor>"] bitlen_eq_zero_iff [of "\<lfloor>x\<rfloor>"] by linarith
  then show "0 \<le> exponent x" using assms by (simp add: exponent_def)
  have "two_to (exponent x) = 2 ^ nat (bitlen \<lfloor>x\<rfloor> - 1)"
    using assms n by (simp add: exponent_def two_to_def)
  also have "\<dots> = of_int (2 ^ nat (bitlen \<lfloor>x\<rfloor> - 1))" by simp
  also have "\<dots> \<le> of_int \<lfloor>x\<rfloor>" using b by (simp only: of_int_le_iff)
  also have "\<dots> \<le> x" by simp
  finally show "two_to (exponent x) \<le> x" .
qed

lemma exponent_below:
  assumes "x < 2 ^ 53"
  shows "exponent x \<le> 52"
proof (cases "1 \<le> x")
  case True
  have "\<lfloor>x\<rfloor> < 2 ^ 53" using assms by (simp add: floor_less_iff)
  then have "\<lfloor>x\<rfloor> < 2 ^ nat 53" by simp
  then have "bitlen \<lfloor>x\<rfloor> \<le> 53" using bitlen_le_iff_power [of "\<lfloor>x\<rfloor>" 53] by simp
  then show ?thesis using True by (simp add: exponent_def)
next
  case False
  then show ?thesis
    using bitlen_nonneg [of "\<lceil>1 / x\<rceil> - 1"] by (simp add: exponent_def)
qed


lemma round_double_nonneg: "0 \<le> x \<Longrightarrow> 0 \<le> round_double x"
  using two_to_pos [of "exponent \<bar>x\<bar> - 52"]
  by (auto simp add: round_double_def zero_le_mult_iff round_half_even_nonneg sgn_if
      intro!: round_half_even_nonneg divide_nonneg_pos)


text \<open>
  Below \<open>2 ^ 53\<close> every integer is a double, so that rounding does not cross an integer.
\<close>

lemma round_double_int:
  assumes "0 < x" "x < 2 ^ 53"
  shows "of_int k \<le> x \<Longrightarrow> of_int k \<le> round_double x"
    and "x \<le> of_int k \<Longrightarrow> round_double x \<le> of_int k"
proof -
  have x: "\<bar>x\<bar> = x" "sgn x = 1" "x \<noteq> 0" using assms by simp_all
  define d where "d = nat (52 - exponent x)"
  have "exponent x - 52 = - int d"
    using exponent_below [OF assms(2)] by (simp add: d_def)
  then have u: "two_to (exponent x - 52) = 1 / 2 ^ d" by (simp add: two_to_neg)
  define r where "r = round_half_even (x * 2 ^ d)"
  have rd: "round_double x = of_int r / 2 ^ d"
    by (simp add: round_double_def x u r_def)
  {
    assume "of_int k \<le> x"
    then have "of_int k * 2 ^ d \<le> x * 2 ^ d" by (intro mult_right_mono) simp_all
    then have "of_int (k * 2 ^ d) \<le> x * 2 ^ d" by simp
    then have "k * 2 ^ d \<le> r" unfolding r_def by (rule round_half_even_ge)
    then have "real_of_int (k * 2 ^ d) \<le> of_int r" by (simp only: of_int_le_iff)
    then have "of_int k * 2 ^ d \<le> real_of_int r" by simp
    then show "of_int k \<le> round_double x"
      unfolding rd by (simp add: pos_le_divide_eq)
  }
  {
    assume "x \<le> of_int k"
    then have "x * 2 ^ d \<le> of_int k * 2 ^ d" by (intro mult_right_mono) simp_all
    then have "x * 2 ^ d \<le> of_int (k * 2 ^ d)" by simp
    then have "r \<le> k * 2 ^ d" unfolding r_def by (rule round_half_even_le)
    then have "real_of_int r \<le> of_int (k * 2 ^ d)" by (simp only: of_int_le_iff)
    then have "real_of_int r \<le> of_int k * 2 ^ d" by simp
    then show "round_double x \<le> of_int k"
      unfolding rd by (simp add: pos_divide_le_eq)
  }
qed

lemma round_double_ge_one:
  assumes "1 \<le> x"
  shows "1 \<le> round_double x"
proof -
  let ?u = "two_to (exponent x - 52)"
  have x: "\<bar>x\<bar> = x" "sgn x = 1" "x \<noteq> 0" using assms by simp_all
  have u: "0 < ?u" by (rule two_to_pos)
  have "two_to (exponent x - 52 + int 52) = ?u * two_to (int 52)"
    by (rule two_to_add)
  moreover have "two_to (int 52) = 2 ^ 52" by (rule two_to_nat)
  ultimately have ue: "two_to (exponent x) = ?u * 2 ^ 52"
    by simp
  have "?u * 2 ^ 52 \<le> x" using exponent_le(1) [OF assms] by (simp add: ue)
  then have "2 ^ 52 \<le> x / ?u" using u by (simp add: pos_le_divide_eq mult.commute)
  then have "of_int (2 ^ 52) \<le> x / ?u" by simp
  then have "2 ^ 52 \<le> round_half_even (x / ?u)" by (rule round_half_even_ge)
  then have "real_of_int (2 ^ 52) \<le> of_int (round_half_even (x / ?u))"
    by (simp only: of_int_le_iff)
  then have "2 ^ 52 \<le> real_of_int (round_half_even (x / ?u))" by simp
  then have "?u * 2 ^ 52 \<le> ?u * of_int (round_half_even (x / ?u))"
    using u by (intro mult_left_mono) simp_all
  then have "two_to (exponent x) \<le> round_double x"
    by (simp add: ue round_double_def x)
  moreover have "1 \<le> two_to (exponent x)"
    using exponent_le(2) [OF assms] by (simp add: two_to_def)
  ultimately show ?thesis by simp
qed


section \<open>Sizing a buffer from a duration\<close>

lemma to_size_t_small: "0 \<le> x \<Longrightarrow> x < 2 ^ 64 \<Longrightarrow> to_size_t x = nat x"
  by (simp add: to_size_t_def)

lemma ChompTrajectory_duration_points:
  assumes "0 \<le> dur" "0 < disc" "double_div dur disc < 2 ^ 64 - 1"
  shows "ChompTrajectory_duration nj raw dur disc g =
           Some (ChompTrajectory_points nj raw (nat \<lfloor>double_div dur disc\<rfloor> + 1) disc g)"
proof -
  define q where "q = double_div dur disc"
  have "0 \<le> dur / disc" using assms by simp
  then have q: "0 \<le> q" unfolding q_def double_div_def by (rule round_double_nonneg)
  have b: "q < 2 ^ 64 - 1" using assms(3) by (simp add: q_def)
  have c: "static_cast_size_t q = Some (nat \<lfloor>q\<rfloor>)"
    using q b by (simp add: static_cast_size_t_def)
  have "\<lfloor>q\<rfloor> < 2 ^ 64 - 1"
    using b by (simp add: floor_less_iff)
  then have "int (nat \<lfloor>q\<rfloor>) + 1 < 2 ^ 64" using q by simp
  then have "to_size_t (int (nat \<lfloor>q\<rfloor>) + 1) = nat \<lfloor>q\<rfloor> + 1"
    by (simp add: to_size_t_small nat_add_distrib)
  then show ?thesis
    using assms(2) c by (simp add: ChompTrajectory_duration_def q_def [symmetric])
qed

text \<open>The quotient of the duration 3.0 and the discretization 0.03409 of \<open>solve\<close>.\<close>

lemma double_div_solve: "\<lfloor>double_div 3 (3409 / 100000)\<rfloor> = 88"
  "double_div 3 (3409 / 100000) < 2 ^ 64 - 1"
  by (simp_all add: double_div_def round_double_def exponent_def two_to_def
      round_half_even_def compute_bitlen)

text \<open>
  The quotient of the duration 1.0 and of the double nearest to 0.1, which is
  \<open>3602879701896397 / 2 ^ 55\<close>, is below 10 and is rounded to 10.
\<close>

lemma double_div_tenth:
  "\<lfloor>double_div 1 (3602879701896397 / 2 ^ 55)\<rfloor> = 10"
  "\<lfloor>1 / (3602879701896397 / 2 ^ 55) :: real\<rfloor> = 9"
  "double_div 1 (3602879701896397 / 2 ^ 55) < 2 ^ 64 - 1"
  by (simp_all add: double_div_def round_double_def exponent_def two_to_def
      round_half_even_def compute_bitlen)

text \<open>
  Claim C4, as the code has it. Let the duration and the discretization be positive and
  their quotient as a double, \<open>double_div duration discretization\<close>, be below
  \<open>2 ^ 64 - 1\<close>. The buffer built from the duration has one point more than the integer
  part of the quotient as a double. That is at least one point, and at least two points
  when the duration is not shorter than the discretization. When the exact quotient is
  below \<open>2 ^ 53\<close>, the number of points is \<open>\<lfloor>duration / discretization\<rfloor> + 1\<close> or one more,
  the latter only when rounding the quotient reaches the next integer.
\<close>

theorem C4_num_points_from_duration:
  assumes "0 < dur" "0 < disc" "double_div dur disc < 2 ^ 64 - 1"
  shows "\<exists>t. ChompTrajectory_duration nj raw dur disc g = Some t
           \<and> num_points t = nat \<lfloor>double_div dur disc\<rfloor> + 1
           \<and> 1 \<le> num_points t
           \<and> (disc \<le> dur \<longrightarrow> 2 \<le> num_points t)
           \<and> (dur / disc < 2 ^ 53 \<longrightarrow>
                num_points t = nat \<lfloor>dur / disc\<rfloor> + 1
                \<or> num_points t = nat \<lfloor>dur / disc\<rfloor> + 2
                   \<and> double_div dur disc = of_int \<lfloor>dur / disc\<rfloor> + 1)"
proof -
  define q where "q = dur / disc"
  define p where "p = double_div dur disc"
  let ?t = "ChompTrajectory_points nj raw (nat \<lfloor>p\<rfloor> + 1) disc g"
  have q0: "0 < q" using assms(1,2) by (simp add: q_def)
  have p: "p = round_double q" by (simp add: p_def q_def double_div_def)
  have p0: "0 \<le> p" unfolding p using q0 by (intro round_double_nonneg) simp
  have n: "num_points ?t = nat \<lfloor>p\<rfloor> + 1"
    by (simp add: ChompTrajectory_points_def init_def)
  have two: "2 \<le> num_points ?t" if "disc \<le> dur"
  proof -
    have "1 \<le> q" using that assms(2) by (simp add: q_def)
    then have "1 \<le> p" unfolding p by (rule round_double_ge_one)
    then have "1 \<le> \<lfloor>p\<rfloor>" by (simp add: le_floor_iff)
    then show ?thesis unfolding n by linarith
  qed
  have near: "num_points ?t = nat \<lfloor>q\<rfloor> + 1
      \<or> num_points ?t = nat \<lfloor>q\<rfloor> + 2 \<and> p = of_int \<lfloor>q\<rfloor> + 1" if "q < 2 ^ 53"
  proof -
    have f0: "0 \<le> \<lfloor>q\<rfloor>" using q0 by simp
    have "of_int \<lfloor>q\<rfloor> \<le> q" by simp
    then have lo: "of_int \<lfloor>q\<rfloor> \<le> p" unfolding p by (rule round_double_int(1) [OF q0 that])
    have "q \<le> of_int (\<lfloor>q\<rfloor> + 1)" by simp
    then have "p \<le> of_int (\<lfloor>q\<rfloor> + 1)" unfolding p by (rule round_double_int(2) [OF q0 that])
    then have hi: "p \<le> of_int \<lfloor>q\<rfloor> + 1" by simp
    show ?thesis
    proof (cases "p = of_int \<lfloor>q\<rfloor> + 1")
      case True
      then have "p = of_int (\<lfloor>q\<rfloor> + 1)" by simp
      then have "\<lfloor>p\<rfloor> = \<lfloor>q\<rfloor> + 1" by (simp only: floor_of_int)
      then have "nat \<lfloor>p\<rfloor> = nat \<lfloor>q\<rfloor> + 1" using f0 by linarith
      then show ?thesis using True unfolding n by simp
    next
      case False
      then have "p < of_int \<lfloor>q\<rfloor> + 1" using hi by simp
      then have "\<lfloor>p\<rfloor> = \<lfloor>q\<rfloor>" using lo by (simp add: floor_eq_iff)
      then show ?thesis unfolding n by simp
    qed
  qed
  have "ChompTrajectory_duration nj raw dur disc g = Some ?t"
    unfolding p_def using assms by (intro ChompTrajectory_duration_points) simp_all
  then show ?thesis
    using n two near unfolding p_def q_def by simp
qed

text \<open>
  The buffer that \<open>solve\<close> builds, from a duration of 3.0 and a discretization of
  0.03409, has 89 points. A duration of 1.0 and a discretization of the double nearest
  to 0.1 give 11 points, where the exact quotient is below 10.
\<close>

theorem C4_num_points_from_duration_witness:
  "(0::real) < 3 \<and> (0::real) < 0.03409 \<and> double_div 3 0.03409 < 2 ^ 64 - 1
   \<and> (0.03409::real) \<le> 3 \<and> (3::real) / 0.03409 < 2 ^ 53
   \<and> (\<exists>t. ChompTrajectory_duration 7 (\<lambda>_ _. 0) 3 0.03409 ''arm'' = Some t
         \<and> num_points t = 89)
   \<and> (\<exists>t. ChompTrajectory_duration 7 (\<lambda>_ _. 0) 1 (3602879701896397 / 2 ^ 55) ''arm'' = Some t
         \<and> num_points t = 11
         \<and> num_points t = nat \<lfloor>1 / (3602879701896397 / 2 ^ 55) :: real\<rfloor> + 2)"
proof -
  have a: "\<exists>t. ChompTrajectory_duration 7 (\<lambda>_ _. 0) 3 0.03409 ''arm'' = Some t
         \<and> num_points t = 89"
    using C4_num_points_from_duration [of 3 "3409 / 100000" 7 "\<lambda>_ _. 0" "''arm''"]
      double_div_solve by auto
  have b: "\<exists>t. ChompTrajectory_duration 7 (\<lambda>_ _. 0) 1 (3602879701896397 / 2 ^ 55) ''arm'' = Some t
         \<and> num_points t = 11
         \<and> num_points t = nat \<lfloor>1 / (3602879701896397 / 2 ^ 55) :: real\<rfloor> + 2"
    using C4_num_points_from_duration [of 1 "3602879701896397 / 2 ^ 55" 7 "\<lambda>_ _. 0" "''arm''"]
      double_div_tenth by auto
  have "double_div 3 0.03409 < 2 ^ 64 - 1" using double_div_solve(2) by simp
  then show ?thesis using a b by simp
qed

text \<open>
  A duration shorter than the discretization gives a buffer of one point, so the bound
  \<open>numPoints \<ge> 2\<close> of the claim does not hold for every positive pair.
\<close>

theorem C4_one_point_counterexample:
  "(0::real) < 1 \<and> (0::real) < 2
   \<and> map_option num_points (ChompTrajectory_duration 7 (\<lambda>_ _. 0) 1 2 ''arm'') = Some 1
   \<and> \<not> (2::nat) \<le> 1"
  by (simp add: ChompTrajectory_duration_def static_cast_size_t_def
      ChompTrajectory_points_def init_def to_size_t_def
      double_div_def round_double_def exponent_def two_to_def
      round_half_even_def compute_bitlen)
section \<open>The padded copy\<close>

lemma to_int_small: "n < 2 ^ 31 \<Longrightarrow> to_int n = int n"
  by (simp add: to_int_def)

lemma to_int_to_size_t: "- (2 ^ 31) \<le> x \<Longrightarrow> x < 2 ^ 31 \<Longrightarrow> to_int (to_size_t x) = x"
proof -
  assume a: "- (2 ^ 31) \<le> x" "x < 2 ^ 31"
  have "(2::int) ^ 64 = 2 ^ 32 * 2 ^ 32" by simp
  then have d: "(2::int) ^ 32 dvd 2 ^ 64" by (metis dvd_triv_left)
  have "(x mod 2 ^ 64 + 2 ^ 31) mod 2 ^ 32 = (x + 2 ^ 31) mod 2 ^ 32"
    by (metis d mod_add_left_eq mod_mod_cancel)
  moreover have "(x + 2 ^ 31) mod 2 ^ 32 = x + 2 ^ 31"
    using a by (simp add: mod_pos_pos_trivial)
  ultimately show ?thesis
    by (simp add: to_int_def to_size_t_def)
qed

lemma int_to_size_t: "int (to_size_t x) = x mod 2 ^ 64"
  by (simp add: to_size_t_def)

lemma to_size_t_cong: "x mod 2 ^ 64 = y mod 2 ^ 64 \<Longrightarrow> to_size_t x = to_size_t y"
  by (simp add: to_size_t_def)

lemma start_extra_eq:
  assumes "1 \<le> d" "d \<le> 2 ^ 30" "start_index s < 2 ^ 30"
  shows "start_extra s d = (d - 1) - int (start_index s)"
proof -
  have "size_t_sub (to_size_t (d - 1)) (start_index s) = to_size_t ((d - 1) - int (start_index s))"
    unfolding size_t_sub_def by (rule to_size_t_cong) (simp add: int_to_size_t mod_simps)
  then show ?thesis
    using assms by (simp add: start_extra_def to_int_to_size_t)
qed

lemma end_extra_eq:
  assumes "1 \<le> d" "d \<le> 2 ^ 30" "end_index s < num_points s" "num_points s < 2 ^ 30"
  shows "end_extra s d = (d - 1) - ((int (num_points s) - 1) - int (end_index s))"
proof -
  have "size_t_sub (to_size_t (d - 1))
          (size_t_sub (size_t_sub (num_points s) 1) (end_index s))
        = to_size_t ((d - 1) - ((int (num_points s) - 1) - int (end_index s)))"
    unfolding size_t_sub_def by (rule to_size_t_cong) (simp add: int_to_size_t mod_simps)
  then show ?thesis
    using assms by (simp add: end_extra_def to_int_to_size_t)
qed

lemma source_traj_point_eq:
  assumes "- (2 ^ 31) \<le> int i - e" "int i - e < 2 ^ 31" "0 < num_points s"
    "num_points s < 2 ^ 30"
  shows "source_traj_point s e i = clamp (int i - e) 0 (int (num_points s) - 1)"
proof -
  have "size_t_sub i (to_size_t e) = to_size_t (int i - e)"
    unfolding size_t_sub_def by (rule to_size_t_cong) (simp add: int_to_size_t mod_simps)
  then have p: "to_int (size_t_sub i (to_size_t e)) = int i - e"
    using assms by (simp add: to_int_to_size_t)
  have l: "to_int (size_t_sub (num_points s) 1) = int (num_points s) - 1"
    using assms by (simp add: size_t_sub_def to_int_to_size_t)
  have z: "to_size_t 0 = 0" by (simp add: to_size_t_def)
  show ?thesis
  proof (cases "int i - e < 0")
    case True
    then show ?thesis
      using assms p z by (simp add: source_traj_point_def clamp_def Let_def)
  next
    case False
    then have "to_size_t (int i - e) = nat (int i - e)"
      using assms by (simp add: to_size_t_small)
    then show ?thesis
      using False assms p l by (auto simp add: source_traj_point_def clamp_def Let_def)
  qed
qed

lemma copy_point_trajectory:
  "trajectory (copy_point s e i t)
     = (trajectory t)(i := getTrajectoryPoint s (to_size_t (source_traj_point s e i)))"
  by (simp add: copy_point_def Let_def)

lemma copy_point_index:
  "full_trajectory_index (copy_point s e i t)
     = (full_trajectory_index t)[i := to_size_t (source_traj_point s e i)]"
  by (simp add: copy_point_def Let_def)

lemma copy_point_other:
  "num_points (copy_point s e i t) = num_points t"
  "start_index (copy_point s e i t) = start_index t"
  "end_index (copy_point s e i t) = end_index t"
  "num_joints (copy_point s e i t) = num_joints t"
  "discretization (copy_point s e i t) = discretization t"
  "duration (copy_point s e i t) = duration t"
  by (simp_all add: copy_point_def Let_def)

lemma fold_copy_point_other:
  "num_points (fold (copy_point s e) xs t) = num_points t"
  "start_index (fold (copy_point s e) xs t) = start_index t"
  "end_index (fold (copy_point s e) xs t) = end_index t"
  "num_joints (fold (copy_point s e) xs t) = num_joints t"
  "discretization (fold (copy_point s e) xs t) = discretization t"
  "duration (fold (copy_point s e) xs t) = duration t"
  "length (full_trajectory_index (fold (copy_point s e) xs t)) = length (full_trajectory_index t)"
  by (induction xs arbitrary: t) (simp_all add: copy_point_other copy_point_index)

lemma fold_copy_point_row:
  "i < n \<Longrightarrow>
   trajectory (fold (copy_point s e) [0..<n] t) i
     = getTrajectoryPoint s (to_size_t (source_traj_point s e i))"
proof (induction n)
  case 0
  then show ?case by simp
next
  case (Suc n)
  then show ?case
    by (cases "i = n") (simp_all add: copy_point_trajectory)
qed

lemma fold_copy_point_index:
  "i < n \<Longrightarrow> n \<le> length (full_trajectory_index t) \<Longrightarrow>
   full_trajectory_index (fold (copy_point s e) [0..<n] t) ! i
     = to_size_t (source_traj_point s e i)"
proof (induction n)
  case 0
  then show ?case by simp
next
  case (Suc n)
  then show ?case
    by (cases "i = n") (simp_all add: copy_point_index fold_copy_point_other)
qed

text \<open>The fields of the padded copy, when nothing wraps.\<close>

lemma padded_fields:
  fixes raw :: matrix and g :: string and s :: ChompTrajectory and d :: int
  assumes "1 \<le> d" "d \<le> 2 ^ 30" "start_index s \<le> end_index s" "end_index s < num_points s"
    "num_points s < 2 ^ 30"
  defines "p \<equiv> ChompTrajectory_padded raw s g d"
  shows "int (num_points p) = int (num_points s) + start_extra s d + end_extra s d"
    and "int (start_index p) = d - 1"
    and "int (end_index p) = (int (num_points p) - 1) - (d - 1)"
    and "duration p = (real (num_points p) - 1) * discretization s"
proof -
  have se: "start_extra s d = (d - 1) - int (start_index s)"
    using assms by (simp add: start_extra_eq)
  have ee: "end_extra s d = (d - 1) - ((int (num_points s) - 1) - int (end_index s))"
    using assms by (simp add: end_extra_eq)
  let ?np = "size_t_add (size_t_add (num_points s) (to_size_t (start_extra s d)))
               (to_size_t (end_extra s d))"
  have "?np = to_size_t (int (num_points s) + start_extra s d + end_extra s d)"
    unfolding size_t_add_def by (rule to_size_t_cong) (simp add: int_to_size_t mod_simps)
  moreover have "0 \<le> int (num_points s) + start_extra s d + end_extra s d"
    "int (num_points s) + start_extra s d + end_extra s d < 2 ^ 64"
    using assms(1-5) unfolding se ee by simp_all
  ultimately have np: "int ?np = int (num_points s) + start_extra s d + end_extra s d"
    by (simp add: to_size_t_small)
  have npv: "int ?np = int (num_points s) + ((d - 1) - int (start_index s))
                 + ((d - 1) - ((int (num_points s) - 1) - int (end_index s)))"
    using np se ee by simp
  have n: "num_points p = ?np" "start_index p = to_size_t (d - 1)"
    "end_index p = size_t_sub (size_t_sub ?np 1) (to_size_t (d - 1))"
    "duration p = real (size_t_sub ?np 1) * discretization s"
    by (simp_all add: p_def ChompTrajectory_padded_def Let_def fold_copy_point_other init_def)
  show "int (num_points p) = int (num_points s) + start_extra s d + end_extra s d"
    using n np by simp
  show "int (start_index p) = d - 1"
    using n assms(1,2) by (simp add: to_size_t_small)
  have "size_t_sub (size_t_sub ?np 1) (to_size_t (d - 1)) = to_size_t ((int ?np - 1) - (d - 1))"
    unfolding size_t_sub_def by (rule to_size_t_cong) (simp add: int_to_size_t mod_simps)
  moreover have "0 \<le> (int ?np - 1) - (d - 1)" "(int ?np - 1) - (d - 1) < 2 ^ 64"
    using assms(1-5) unfolding npv by simp_all
  ultimately show "int (end_index p) = (int (num_points p) - 1) - (d - 1)"
    using n by (simp add: to_size_t_small)
  have "1 \<le> int ?np" "int ?np < 2 ^ 64" using assms(1-5) unfolding npv by simp_all
  then have "size_t_sub ?np 1 = ?np - 1"
    unfolding size_t_sub_def by (simp add: to_size_t_small nat_diff_distrib)
  then show "duration p = (real (num_points p) - 1) * discretization s"
    using n \<open>1 \<le> int ?np\<close> by (simp add: of_nat_diff)
qed


lemma padded_rows:
  fixes raw :: matrix and g :: string and s :: ChompTrajectory and d :: int
  assumes "1 \<le> d" "d \<le> 2 ^ 30" "start_index s \<le> end_index s" "end_index s < num_points s"
    "num_points s < 2 ^ 30"
  defines "p \<equiv> ChompTrajectory_padded raw s g d"
  assumes i: "i < num_points p"
  shows "getTrajectoryPoint p i
           = getTrajectoryPoint s (nat (clamp (int i - start_extra s d) 0 (int (num_points s) - 1)))"
    and "full_trajectory_index p ! i
           = nat (clamp (int i - start_extra s d) 0 (int (num_points s) - 1))"
proof -
  have se: "start_extra s d = (d - 1) - int (start_index s)"
    using assms by (simp add: start_extra_eq)
  have ee: "end_extra s d = (d - 1) - ((int (num_points s) - 1) - int (end_index s))"
    using assms by (simp add: end_extra_eq)
  have np: "int (num_points p) = int (num_points s) + start_extra s d + end_extra s d"
    unfolding p_def by (rule padded_fields(1) [OF assms(1-5)])
  have ib: "- (2 ^ 31) \<le> int i - start_extra s d" "int i - start_extra s d < 2 ^ 31"
    using i np assms(1-5) unfolding se ee by simp_all
  have c: "source_traj_point s (start_extra s d) i
             = clamp (int i - start_extra s d) 0 (int (num_points s) - 1)"
    using assms(1-5) ib by (intro source_traj_point_eq) simp_all
  have c0: "0 \<le> clamp (int i - start_extra s d) 0 (int (num_points s) - 1)"
    "clamp (int i - start_extra s d) 0 (int (num_points s) - 1) < 2 ^ 64"
    using assms(1-5) by (simp_all add: clamp_def)
  let ?np = "size_t_add (size_t_add (num_points s) (to_size_t (start_extra s d)))
               (to_size_t (end_extra s d))"
  have n: "num_points p = ?np"
    by (simp add: p_def ChompTrajectory_padded_def Let_def fold_copy_point_other init_def)
  show "getTrajectoryPoint p i
           = getTrajectoryPoint s (nat (clamp (int i - start_extra s d) 0 (int (num_points s) - 1)))"
    using i n c c0
    by (simp add: p_def ChompTrajectory_padded_def Let_def getTrajectoryPoint_def
        fold_copy_point_row to_size_t_small)
  show "full_trajectory_index p ! i
           = nat (clamp (int i - start_extra s d) 0 (int (num_points s) - 1))"
    using i n c c0
    by (simp add: p_def ChompTrajectory_padded_def Let_def fold_copy_point_index init_def
        to_size_t_small)
qed

text \<open>
  Claim C3, as the code has it. The constructor does not clamp the two extras at zero:
  \<open>startExtra = (stencilWidth - 1) - source.startIndex\<close> and
  \<open>endExtra = (stencilWidth - 1) - ((source.numPoints - 1) - source.endIndex)\<close>, either of
  which may be negative. For a stencil width from 1 to \<open>2 ^ 30\<close> and a source of fewer than
  \<open>2 ^ 30\<close> points with \<open>startIndex \<le> endIndex < numPoints\<close>: the padded buffer has
  \<open>numPoints = source.numPoints + startExtra + endExtra\<close>, \<open>startIndex = stencilWidth - 1\<close>
  and \<open>endIndex = numPoints - 1 - (stencilWidth - 1)\<close>; every row \<open>i\<close> is the source row
  \<open>clamp (i - startExtra) 0 (source.numPoints - 1)\<close>, and that index is recorded; the free
  range is as long as the source's; rows up to \<open>startExtra\<close> equal the source's first row
  and rows from \<open>numPoints - 1 - endExtra\<close> on equal its last row; for a source with
  \<open>startIndex = 1\<close> and \<open>endIndex = numPoints - 2\<close> these are all the rows outside the
  padded buffer's free range.
\<close>

theorem C3_padded_copy:
  fixes raw :: matrix and g :: string and s :: ChompTrajectory and d :: int
  assumes "1 \<le> d" "d \<le> 2 ^ 30" "start_index s \<le> end_index s" "end_index s < num_points s"
    "num_points s < 2 ^ 30"
  defines "p \<equiv> ChompTrajectory_padded raw s g d"
  shows "start_extra s d = (d - 1) - int (start_index s)
    \<and> end_extra s d = (d - 1) - ((int (num_points s) - 1) - int (end_index s))
    \<and> int (num_points p) = int (num_points s) + start_extra s d + end_extra s d
    \<and> int (start_index p) = d - 1
    \<and> int (end_index p) = (int (num_points p) - 1) - (d - 1)
    \<and> (\<forall>i < num_points p.
          getTrajectoryPoint p i
            = getTrajectoryPoint s (nat (clamp (int i - start_extra s d) 0 (int (num_points s) - 1)))
          \<and> full_trajectory_index p ! i
            = nat (clamp (int i - start_extra s d) 0 (int (num_points s) - 1)))
    \<and> int (end_index p) - int (start_index p) = int (end_index s) - int (start_index s)
    \<and> (\<forall>i < num_points p. int i \<le> start_extra s d \<longrightarrow>
          getTrajectoryPoint p i = getTrajectoryPoint s 0)
    \<and> (\<forall>i < num_points p. int (num_points p) - 1 - end_extra s d \<le> int i \<longrightarrow>
          getTrajectoryPoint p i = getTrajectoryPoint s (num_points s - 1))
    \<and> (start_index s = 1 \<and> end_index s + 2 = num_points s \<longrightarrow>
          start_extra s d = int (start_index p) - 1
          \<and> int (num_points p) - 1 - end_extra s d = int (end_index p) + 1)"
proof -
  have se: "start_extra s d = (d - 1) - int (start_index s)"
    using assms by (simp add: start_extra_eq)
  have ee: "end_extra s d = (d - 1) - ((int (num_points s) - 1) - int (end_index s))"
    using assms by (simp add: end_extra_eq)
  have np: "int (num_points p) = int (num_points s) + start_extra s d + end_extra s d"
    and st: "int (start_index p) = d - 1"
    and en: "int (end_index p) = (int (num_points p) - 1) - (d - 1)"
    unfolding p_def by (rule padded_fields [OF assms(1-5)])+
  have rows: "\<forall>i < num_points p.
          getTrajectoryPoint p i
            = getTrajectoryPoint s (nat (clamp (int i - start_extra s d) 0 (int (num_points s) - 1)))
          \<and> full_trajectory_index p ! i
            = nat (clamp (int i - start_extra s d) 0 (int (num_points s) - 1))"
    unfolding p_def using padded_rows [OF assms(1-5)] by blast
  have free: "int (end_index p) - int (start_index p) = int (end_index s) - int (start_index s)"
    unfolding en st np se ee by simp
  have first: "\<forall>i < num_points p. int i \<le> start_extra s d \<longrightarrow>
          getTrajectoryPoint p i = getTrajectoryPoint s 0"
  proof (intro allI impI)
    fix i assume "i < num_points p" "int i \<le> start_extra s d"
    moreover from this have "clamp (int i - start_extra s d) 0 (int (num_points s) - 1) = 0"
      using assms(4) by (simp add: clamp_def)
    ultimately show "getTrajectoryPoint p i = getTrajectoryPoint s 0"
      using rows by simp
  qed
  have last: "\<forall>i < num_points p. int (num_points p) - 1 - end_extra s d \<le> int i \<longrightarrow>
          getTrajectoryPoint p i = getTrajectoryPoint s (num_points s - 1)"
  proof (intro allI impI)
    fix i assume a: "i < num_points p" "int (num_points p) - 1 - end_extra s d \<le> int i"
    then have "int (num_points s) - 1 \<le> int i - start_extra s d"
      unfolding np by simp
    then have "clamp (int i - start_extra s d) 0 (int (num_points s) - 1)
                 = int (num_points s) - 1"
      using assms(4) by (simp add: clamp_def)
    moreover have "nat (int (num_points s) - 1) = num_points s - 1" by simp
    ultimately show "getTrajectoryPoint p i = getTrajectoryPoint s (num_points s - 1)"
      using rows a(1) by simp
  qed
  have unp: "start_index s = 1 \<and> end_index s + 2 = num_points s \<longrightarrow>
          start_extra s d = int (start_index p) - 1
          \<and> int (num_points p) - 1 - end_extra s d = int (end_index p) + 1"
    unfolding en st np se ee by auto
  show ?thesis
    using se ee np st en rows free first last unp by blast
qed

text \<open>
  With a stencil width of 1 and an un-padded source of five points the code's
  \<^verbatim>\<open>start_extra\<close> is \<open>-1\<close>, not \<open>max 0 (-1) = 0\<close>, and the copy has three points, not the
  five that the clamped extras give.
\<close>

theorem C3_no_clamp_counterexample:
  "start_index five_points = 1 \<and> start_extra five_points 1 = - 1
   \<and> max 0 ((1 - 1) - int (start_index five_points)) = 0
   \<and> num_points (ChompTrajectory_padded (\<lambda>_ _. 0) five_points ''arm'' 1) = 3
   \<and> num_points five_points + nat (max 0 ((1 - 1) - int (start_index five_points)))
        + nat (max 0 ((1 - 1) - ((int (num_points five_points) - 1) - int (end_index five_points)))) = 5"
  by (simp add: five_points_def ChompTrajectory_points_def init_def start_extra_def end_extra_def
      ChompTrajectory_padded_def Let_def fold_copy_point_other size_t_sub_def size_t_add_def
      to_size_t_def to_int_def)

text \<open>
  The five-point buffer padded for a rule of length 7: fifteen points, free range 6 to 8,
  first row repeated on rows 0 to 5 and last row on rows 9 to 14.
\<close>

theorem C3_padded_copy_witness:
  "(1::int) \<le> 7 \<and> (7::int) \<le> 2 ^ 30 \<and> start_index five_points \<le> end_index five_points
   \<and> end_index five_points < num_points five_points \<and> num_points five_points < 2 ^ 30
   \<and> num_points (ChompTrajectory_padded (\<lambda>_ _. 0) five_points ''arm'' 7) = 15
   \<and> start_index (ChompTrajectory_padded (\<lambda>_ _. 0) five_points ''arm'' 7) = 6
   \<and> end_index (ChompTrajectory_padded (\<lambda>_ _. 0) five_points ''arm'' 7) = 8
   \<and> getTrajectoryPoint (ChompTrajectory_padded (\<lambda>_ _. 0) five_points ''arm'' 7) 5 0 = 0
   \<and> getTrajectoryPoint (ChompTrajectory_padded (\<lambda>_ _. 0) five_points ''arm'' 7) 7 0 = 2
   \<and> getTrajectoryPoint (ChompTrajectory_padded (\<lambda>_ _. 0) five_points ''arm'' 7) 14 0 = 4"
proof -
  have f: "start_index five_points = 1" "end_index five_points = 3" "num_points five_points = 5"
    "\<And>i. getTrajectoryPoint five_points i = (\<lambda>j. real i)"
    by (simp_all add: five_points_def ChompTrajectory_points_def init_def to_size_t_def
        getTrajectoryPoint_def)
  have h: "(1::int) \<le> 7" "(7::int) \<le> 2 ^ 30" "start_index five_points \<le> end_index five_points"
    "end_index five_points < num_points five_points" "num_points five_points < 2 ^ 30"
    by (simp_all add: f)
  note t = C3_padded_copy [OF h, of "\<lambda>_ _. 0" "''arm''"]
  from t have n: "num_points (ChompTrajectory_padded (\<lambda>_ _. 0) five_points ''arm'' 7) = 15"
    and se: "start_extra five_points 7 = 5"
    by (simp_all add: f)
  from t have "int (start_index (ChompTrajectory_padded (\<lambda>_ _. 0) five_points ''arm'' 7)) = 6"
    "int (end_index (ChompTrajectory_padded (\<lambda>_ _. 0) five_points ''arm'' 7)) = 8"
    by (simp_all add: f)
  then have se2: "start_index (ChompTrajectory_padded (\<lambda>_ _. 0) five_points ''arm'' 7) = 6"
    "end_index (ChompTrajectory_padded (\<lambda>_ _. 0) five_points ''arm'' 7) = 8"
    by linarith+
  from t have r: "\<forall>i < 15.
     getTrajectoryPoint (ChompTrajectory_padded (\<lambda>_ _. 0) five_points ''arm'' 7) i
       = getTrajectoryPoint five_points (nat (clamp (int i - 5) 0 4))"
    unfolding n se by (simp add: f)
  have "getTrajectoryPoint (ChompTrajectory_padded (\<lambda>_ _. 0) five_points ''arm'' 7) 5 0 = 0"
    "getTrajectoryPoint (ChompTrajectory_padded (\<lambda>_ _. 0) five_points ''arm'' 7) 7 0 = 2"
    "getTrajectoryPoint (ChompTrajectory_padded (\<lambda>_ _. 0) five_points ''arm'' 7) 14 0 = 4"
    using r by (simp_all add: f clamp_def)
  then show ?thesis using h n se2 by simp
qed

section \<open>The minimum-jerk filler\<close>

lemma powers_power: "powers x k = x ^ k"
  by (induction x k rule: powers.induct) simp_all

lemma spline_value_quintic: "spline_value (powers x) c = quintic c x"
  by (simp add: spline_value_def quintic_def powers_power eval_nat_numeral lessThan_Suc mult.commute)

lemma DERIV_quintic: "(quintic c has_real_derivative quintic' c x) (at x)"
  unfolding quintic_def [abs_def] quintic'_def
  by (auto intro!: derivative_eq_intros simp: lessThan_Suc eval_nat_numeral)

lemma DERIV_quintic': "(quintic' c has_real_derivative quintic'' c x) (at x)"
  unfolding quintic'_def [abs_def] quintic''_def
  by (auto intro!: derivative_eq_intros simp: lessThan_Suc eval_nat_numeral)


lemma set_entry_fields:
  "num_points (set_entry i j v t) = num_points t"
  "num_joints (set_entry i j v t) = num_joints t"
  "discretization (set_entry i j v t) = discretization t"
  "duration (set_entry i j v t) = duration t"
  "start_index (set_entry i j v t) = start_index t"
  "end_index (set_entry i j v t) = end_index t"
  "trajectory (set_entry i j v t) = (trajectory t)(i := (trajectory t i)(j := v))"
  by (simp_all add: set_entry_def)

lemma fold_set_entry_row:
  "fold (\<lambda>j t. set_entry i j (f j) t) [0..<n] t
     = t\<lparr>trajectory := (trajectory t)(i := (\<lambda>j. if j < n then f j else trajectory t i j))\<rparr>"
proof (induction n)
  case 0
  then show ?case by simp
next
  case (Suc n)
  then show ?case
    by (auto simp add: set_entry_def fun_eq_iff intro!: arg_cong [where f = "\<lambda>m. t\<lparr>trajectory := m\<rparr>"])
qed

lemma fill_point_eq:
  "fill_point c s i t
     = t\<lparr>trajectory := (trajectory t)
           (i := (\<lambda>j. if j < num_joints t
                        then quintic (c j) ((real i - real s) * discretization t)
                        else trajectory t i j))\<rparr>"
  by (simp add: fill_point_def Let_def fold_set_entry_row spline_value_quintic cong: if_cong)

lemma fold_fill_point:
  "fold (fill_point c s) xs t
     = t\<lparr>trajectory := (\<lambda>i j. if i \<in> set xs \<and> j < num_joints t
                                then quintic (c j) ((real i - real s) * discretization t)
                                else trajectory t i j)\<rparr>"
proof (induction xs arbitrary: t)
  case Nil
  then show ?case by simp
next
  case (Cons x xs)
  have "fold (fill_point c s) (x # xs) t = fold (fill_point c s) xs (fill_point c s x t)"
    by simp
  also have "\<dots> = (fill_point c s x t)
      \<lparr>trajectory := (\<lambda>i j. if i \<in> set xs \<and> j < num_joints (fill_point c s x t)
                                then quintic (c j) ((real i - real s) * discretization (fill_point c s x t))
                                else trajectory (fill_point c s x t) i j)\<rparr>"
    by (rule Cons.IH)
  also have "\<dots> = t\<lparr>trajectory := (\<lambda>i j. if i \<in> set (x # xs) \<and> j < num_joints t
                                then quintic (c j) ((real i - real s) * discretization t)
                                else trajectory t i j)\<rparr>"
    unfolding fill_point_eq
    by (auto simp add: fun_eq_iff intro!: arg_cong [where f = "\<lambda>m. t\<lparr>trajectory := m\<rparr>"])
  finally show ?case .
qed

lemma fillInMinJerk_entry:
  "trajectory (fillInMinJerk t) i j
     = (if size_t_sub (start_index t) 1 < i \<and> i < size_t_add (end_index t) 1 \<and> j < num_joints t
        then quintic (coeff t j) ((real i - real (size_t_sub (start_index t) 1)) * discretization t)
        else trajectory t i j)"
  by (simp add: fillInMinJerk_def Let_def fold_fill_point)

lemma quintic_at_0: "quintic c 0 = c 0"
  by (simp add: quintic_def lessThan_Suc eval_nat_numeral)

lemma coeff_simps:
  "coeff t j 0 = trajectory t (size_t_sub (start_index t) 1) j"
  "coeff t j 1 = 0" "coeff t j 2 = 0"
  "coeff t j (Suc 0) = 0" "coeff t j (Suc (Suc 0)) = 0"
  by (simp_all add: coeff_def Let_def)

lemma quintic_coeff_end:
  assumes "T = (real (size_t_add (end_index t) 1) - real (size_t_sub (start_index t) 1)) * discretization t"
    and "T \<noteq> 0"
  shows "quintic (coeff t j) T = trajectory t (size_t_add (end_index t) 1) j"
    and "quintic' (coeff t j) T = 0"
    and "quintic'' (coeff t j) T = 0"
  using assms(2) unfolding assms(1) [symmetric] quintic_def quintic'_def quintic''_def
    coeff_def Let_def powers_power assms(1) [symmetric]
  by (simp_all add: lessThan_Suc eval_nat_numeral field_simps)


lemma size_t_sub_small: "b \<le> a \<Longrightarrow> a < 2 ^ 64 \<Longrightarrow> size_t_sub a b = a - b"
proof -
  assume a: "b \<le> a" "a < 2 ^ 64"
  then have "int a < 2 ^ 64" by simp
  then have "int a - int b < 2 ^ 64" by linarith
  then show ?thesis
    using a by (simp add: size_t_sub_def to_size_t_small nat_diff_distrib)
qed

lemma size_t_add_small: "a + b < 2 ^ 64 \<Longrightarrow> size_t_add a b = a + b"
proof -
  assume a: "a + b < 2 ^ 64"
  then have "int (a + b) < 2 ^ 64" by simp
  then have "int a + int b < 2 ^ 64" by simp
  then show ?thesis
    by (simp add: size_t_add_def to_size_t_small nat_add_distrib)
qed

text \<open>
  Claim C7. Let \<open>s = startIndex - 1\<close> and \<open>e = endIndex + 1\<close> be the boundary rows of a
  buffer with \<open>s < e\<close> and a non-zero discretization, and \<open>T = (e - s) * discretization\<close>.
  The filler leaves the two boundary rows as they are, and writes to every row \<open>i\<close>
  strictly between them, for every joint \<open>j\<close>, the value at \<open>(i - s) * discretization\<close> of
  the quintic with the coefficients computed for \<open>j\<close>. That quintic takes the boundary
  values at 0 and at \<open>T\<close>, the times of the two boundary rows, and its first and second
  derivatives are zero at both.
\<close>

theorem C7_min_jerk:
  fixes t :: ChompTrajectory
  assumes "1 \<le> start_index t" "start_index t \<le> end_index t + 1" "end_index t + 1 < 2 ^ 64"
    and "discretization t \<noteq> 0"
  defines "s \<equiv> start_index t - 1" and "e \<equiv> end_index t + 1"
  defines "T \<equiv> (real e - real s) * discretization t"
  shows "(\<forall>j. trajectory (fillInMinJerk t) s j = trajectory t s j
             \<and> trajectory (fillInMinJerk t) e j = trajectory t e j)
    \<and> (\<forall>i j. s < i \<and> i < e \<and> j < num_joints t \<longrightarrow>
          trajectory (fillInMinJerk t) i j
            = quintic (coeff t j) ((real i - real s) * discretization t))
    \<and> (\<forall>j. quintic (coeff t j) 0 = trajectory t s j
           \<and> quintic (coeff t j) T = trajectory t e j
           \<and> (quintic (coeff t j) has_real_derivative 0) (at 0)
           \<and> (quintic (coeff t j) has_real_derivative 0) (at T)
           \<and> (quintic' (coeff t j) has_real_derivative 0) (at 0)
           \<and> (quintic' (coeff t j) has_real_derivative 0) (at T))"
proof -
  have s: "size_t_sub (start_index t) 1 = s"
    using assms(1-3) by (simp add: s_def size_t_sub_small)
  have e: "size_t_add (end_index t) 1 = e"
    using assms(3) by (simp add: e_def size_t_add_small)
  have "s < e" using assms(1,2) by (simp add: s_def e_def)
  then have T: "T \<noteq> 0" using assms(4) by (simp add: T_def)
  have T': "T = (real (size_t_add (end_index t) 1) - real (size_t_sub (start_index t) 1))
                  * discretization t"
    by (simp only: s e T_def)
  have rows: "\<forall>j. trajectory (fillInMinJerk t) s j = trajectory t s j
             \<and> trajectory (fillInMinJerk t) e j = trajectory t e j"
    unfolding fillInMinJerk_entry s e by simp
  have inner: "\<forall>i j. s < i \<and> i < e \<and> j < num_joints t \<longrightarrow>
          trajectory (fillInMinJerk t) i j
            = quintic (coeff t j) ((real i - real s) * discretization t)"
    unfolding fillInMinJerk_entry s e by simp
  have ends: "quintic (coeff t j) 0 = trajectory t s j"
    "quintic (coeff t j) T = trajectory t e j" for j
    using quintic_coeff_end(1) [OF T' T, of j] unfolding quintic_at_0 coeff_simps s e by simp_all
  have d0: "quintic' (coeff t j) 0 = 0" "quintic'' (coeff t j) 0 = 0" for j
    by (simp_all add: quintic'_def quintic''_def lessThan_Suc coeff_simps eval_nat_numeral)
  have dT: "quintic' (coeff t j) T = 0" "quintic'' (coeff t j) T = 0" for j
    using quintic_coeff_end(2,3) [OF T' T, of j] by simp_all
  have der: "(quintic (coeff t j) has_real_derivative 0) (at 0)"
    "(quintic (coeff t j) has_real_derivative 0) (at T)"
    "(quintic' (coeff t j) has_real_derivative 0) (at 0)"
    "(quintic' (coeff t j) has_real_derivative 0) (at T)" for j
    using DERIV_quintic [of "coeff t j" 0] DERIV_quintic [of "coeff t j" T]
      DERIV_quintic' [of "coeff t j" 0] DERIV_quintic' [of "coeff t j" T]
    by (simp_all add: d0 dT)
  show ?thesis
    using rows inner ends der by blast
qed

text \<open>
  On the buffer from 0 to 1 over five points, the middle row gets the value one half.
\<close>

theorem C7_min_jerk_witness:
  "1 \<le> start_index rest_to_one \<and> start_index rest_to_one \<le> end_index rest_to_one + 1
   \<and> end_index rest_to_one + 1 < 2 ^ 64 \<and> discretization rest_to_one \<noteq> 0
   \<and> trajectory (fillInMinJerk rest_to_one) 0 0 = 0
   \<and> trajectory (fillInMinJerk rest_to_one) 2 0 = 1 / 2
   \<and> trajectory (fillInMinJerk rest_to_one) 4 0 = 1
   \<and> (quintic (coeff rest_to_one 0) has_real_derivative 0) (at (2 / 5))"
proof -
  have f: "start_index rest_to_one = 1" "end_index rest_to_one = 3" "num_joints rest_to_one = 1"
    "discretization rest_to_one = 1 / 10" "trajectory rest_to_one = (\<lambda>i j. if i = 4 then 1 else 0)"
    by (simp_all add: rest_to_one_def ChompTrajectory_points_def init_def to_size_t_def)
  have h: "1 \<le> start_index rest_to_one" "start_index rest_to_one \<le> end_index rest_to_one + 1"
    "end_index rest_to_one + 1 < 2 ^ 64" "discretization rest_to_one \<noteq> 0"
    by (simp_all add: f)
  note t = C7_min_jerk [OF h]
  have c: "coeff rest_to_one 0 = (\<lambda>k. 0)(3 := 625 / 4, 4 := - 9375 / 16, 5 := 9375 / 16)"
    by (simp add: coeff_def Let_def f size_t_sub_def size_t_add_def to_size_t_def fun_eq_iff
        eval_nat_numeral)
  from t have "trajectory (fillInMinJerk rest_to_one) 2 0
                 = quintic (coeff rest_to_one 0) ((real 2 - real 0) * (1 / 10))"
    by (simp add: f)
  also have "\<dots> = 1 / 2"
    unfolding c by (simp add: quintic_def lessThan_Suc eval_nat_numeral)
  finally have m: "trajectory (fillInMinJerk rest_to_one) 2 0 = 1 / 2" .
  from t have "trajectory (fillInMinJerk rest_to_one) 0 0 = 0"
    "trajectory (fillInMinJerk rest_to_one) 4 0 = 1"
    "(quintic (coeff rest_to_one 0) has_real_derivative 0) (at (2 / 5))"
    by (simp_all add: f)
  then show ?thesis using h m by simp
qed

section \<open>The recovery loop\<close>

lemma replan_loop_unfold:
  fixes new_opt p count flag t built
  defines "q \<equiv> (if flag then escalated p else p)"
  defines "opt \<equiv> new_opt (length built) q t"
  shows "replan_loop new_opt p count flag t built =
     (if isInitialized opt \<and> enable_failure_recovery q \<and> \<not> optimize opt
          \<and> count < max_recovery_attempts q
      then replan_loop new_opt q (count + 1) True (t\<lparr>trajectory := optimized opt\<rparr>) (built @ [q])
      else \<lparr>optimizer_ready = isInitialized opt, params_nonconst = q, replan_count = count,
            optimizer = opt,
            optimizer_trajectory = (if isInitialized opt then t\<lparr>trajectory := optimized opt\<rparr> else t),
            tried = built @ [q]\<rparr>)"
  by (subst replan_loop.simps)
     (simp add: q_def opt_def escalated_def setRecoveryParams_def Let_def)


lemma escalated_fields:
  "enable_failure_recovery (escalated p) = enable_failure_recovery p"
  "max_recovery_attempts (escalated p) = max_recovery_attempts p"
  "trajectory_initialization_method (escalated p) = trajectory_initialization_method p"
  "demo_type (escalated p) = demo_type p"
  "learning_rate (escalated p) = learning_rate p + 0.02"
  "ridge_factor (escalated p) = ridge_factor p + 0.002"
  "planning_time_limit (escalated p) = planning_time_limit p + 5"
  "max_iterations (escalated p) = add_int (max_iterations p) 50"
  by (simp_all add: escalated_def)

lemma replan_loop_tried:
  "\<exists>xs. tried (replan_loop new_opt p count flag t built) = built @ xs
      \<and> xs \<noteq> []
      \<and> hd xs = (if flag then escalated p else p)
      \<and> (\<forall>k. Suc k < length xs \<longrightarrow> xs ! Suc k = escalated (xs ! k))
      \<and> int (length xs) \<le> max 0 (max_recovery_attempts p - count) + 1
      \<and> (\<not> enable_failure_recovery p \<longrightarrow> length xs = 1)
      \<and> params_nonconst (replan_loop new_opt p count flag t built) = last xs
      \<and> replan_count (replan_loop new_opt p count flag t built) = count + int (length xs) - 1"
proof (induction new_opt p count flag t built rule: replan_loop.induct)
  case (1 new_opt p count flag t built)
  define q where "q = (if flag then escalated p else p)"
  define opt where "opt = new_opt (length built) q t"
  have qf: "enable_failure_recovery q = enable_failure_recovery p"
    "max_recovery_attempts q = max_recovery_attempts p"
    by (simp_all add: q_def escalated_fields)
  note u = replan_loop_unfold [of new_opt p count flag t built, folded q_def, folded opt_def]
  show ?case
  proof (cases "isInitialized opt \<and> enable_failure_recovery q \<and> \<not> optimize opt
          \<and> count < max_recovery_attempts q")
    case True
    have q': "q = (if flag
               then setRecoveryParams (learning_rate p + 0.02) (ridge_factor p + 0.002)
                      (planning_time_limit p + 5) (add_int (max_iterations p) 50) p
               else p)"
      by (simp add: q_def escalated_def setRecoveryParams_def)
    from "1.IH" [OF q' opt_def refl] True
    obtain xs where xs: "tried (replan_loop new_opt q (count + 1) True (t\<lparr>trajectory := optimized opt\<rparr>) (built @ [q]))
          = (built @ [q]) @ xs" "xs \<noteq> []" "hd xs = escalated q"
      "\<forall>k. Suc k < length xs \<longrightarrow> xs ! Suc k = escalated (xs ! k)"
      "int (length xs) \<le> max 0 (max_recovery_attempts q - (count + 1)) + 1"
      "params_nonconst (replan_loop new_opt q (count + 1) True (t\<lparr>trajectory := optimized opt\<rparr>) (built @ [q])) = last xs"
      "replan_count (replan_loop new_opt q (count + 1) True (t\<lparr>trajectory := optimized opt\<rparr>) (built @ [q]))
         = count + 1 + int (length xs) - 1"
      by auto
    have nth: "\<forall>k. Suc k < length (q # xs) \<longrightarrow> (q # xs) ! Suc k = escalated ((q # xs) ! k)"
    proof (intro allI impI)
      fix k assume "Suc k < length (q # xs)"
      then show "(q # xs) ! Suc k = escalated ((q # xs) ! k)"
        using xs(2,3,4) by (cases k) (simp_all add: hd_conv_nth)
    qed
    have len: "int (length (q # xs)) \<le> max 0 (max_recovery_attempts p - count) + 1"
      using xs(5) True qf by simp
    have eq: "replan_loop new_opt p count flag t built
                = replan_loop new_opt q (count + 1) True (t\<lparr>trajectory := optimized opt\<rparr>) (built @ [q])"
      using True by (simp add: u)
    have "tried (replan_loop new_opt p count flag t built) = built @ (q # xs)"
      "q # xs \<noteq> []" "hd (q # xs) = (if flag then escalated p else p)"
      "\<not> enable_failure_recovery p \<longrightarrow> length (q # xs) = 1"
      "params_nonconst (replan_loop new_opt p count flag t built) = last (q # xs)"
      "replan_count (replan_loop new_opt p count flag t built)
         = count + int (length (q # xs)) - 1"
      using True xs(1,2,6,7) qf unfolding eq by (simp_all add: q_def)
    then show ?thesis
      using nth len by blast
  next
    case False
    then have eq: "replan_loop new_opt p count flag t built
                = \<lparr>optimizer_ready = isInitialized opt, params_nonconst = q, replan_count = count,
                    optimizer = opt,
                    optimizer_trajectory = (if isInitialized opt then t\<lparr>trajectory := optimized opt\<rparr> else t),
                    tried = built @ [q]\<rparr>"
      unfolding u by (simp only: if_False)
    have "tried (replan_loop new_opt p count flag t built) = built @ [q]"
      "[q] \<noteq> []" "hd [q] = (if flag then escalated p else p)"
      "\<forall>k. Suc k < length [q] \<longrightarrow> [q] ! Suc k = escalated ([q] ! k)"
      "int (length [q]) \<le> max 0 (max_recovery_attempts p - count) + 1"
      "\<not> enable_failure_recovery p \<longrightarrow> length [q] = 1"
      "params_nonconst (replan_loop new_opt p count flag t built) = last [q]"
      "replan_count (replan_loop new_opt p count flag t built) = count + int (length [q]) - 1"
      unfolding eq by (simp_all add: q_def)
    then show ?thesis by blast
  qed
qed

lemma replan_loop_num_points:
  "num_points (optimizer_trajectory (replan_loop new_opt p count flag t built)) = num_points t"
proof (induction new_opt p count flag t built rule: replan_loop.induct)
  case (1 new_opt p count flag t built)
  define q where "q = (if flag then escalated p else p)"
  define opt where "opt = new_opt (length built) q t"
  note u = replan_loop_unfold [of new_opt p count flag t built, folded q_def, folded opt_def]
  show ?case
  proof (cases "isInitialized opt \<and> enable_failure_recovery q \<and> \<not> optimize opt
          \<and> count < max_recovery_attempts q")
    case True
    have q': "q = (if flag
               then setRecoveryParams (learning_rate p + 0.02) (ridge_factor p + 0.002)
                      (planning_time_limit p + 5) (add_int (max_iterations p) 50) p
               else p)"
      by (simp add: q_def escalated_def setRecoveryParams_def)
    from "1.IH" [OF q' opt_def refl] True show ?thesis
      unfolding u by simp
  next
    case False
    then show ?thesis
      unfolding u by (simp only: if_False) simp
  qed
qed



section \<open>solve\<close>

lemma set_joints_result:
  assumes "distinct (map getFirstVariableIndex js)"
    and "(i = 0 \<or> i = size_t_sub np 1) \<longrightarrow> k + length js \<le> 7"
  shows "\<exists>st'. set_joints vm t np i js k k st = Some st'
     \<and> (\<forall>j<length js.
           position st' (getFirstVariableIndex (js ! j)) = getTrajectoryPoint t i (k + j)
           \<and> velocity st' (getFirstVariableIndex (js ! j))
               = (if i = 0 \<or> i = size_t_sub np 1 then 0 else vm i (k + j)))
     \<and> (\<forall>v. v \<notin> getFirstVariableIndex ` set js \<longrightarrow>
           position st' v = position st v \<and> velocity st' v = velocity st v)"
  using assms
proof (induction js arbitrary: k st)
  case Nil
  then show ?case by simp
next
  case (Cons jm jms)
  let ?b = "i = 0 \<or> i = size_t_sub np 1"
  let ?v = "getFirstVariableIndex jm"
  define st1 where "st1 = setVariableVelocity ?v (if ?b then initial_vel ! k else vm i k)
                            (setVariablePosition ?v (getTrajectoryPoint t i k) st)"
  have k7: "?b \<longrightarrow> k < 7" using Cons.prems(2) by auto
  have iv: "?b \<longrightarrow> initial_vel ! k = 0"
    using k7 by (simp add: initial_vel_def)
  have step: "set_joints vm t np i (jm # jms) k k st = set_joints vm t np i jms (Suc k) (Suc k) st1"
    using k7 by (simp add: st1_def Let_def initial_vel_def)
  have "distinct (map getFirstVariableIndex jms)"
    and "?b \<longrightarrow> Suc k + length jms \<le> 7"
    using Cons.prems by simp_all
  from Cons.IH [OF this, of st1]
  obtain st' where st': "set_joints vm t np i jms (Suc k) (Suc k) st1 = Some st'"
    "\<forall>j<length jms.
           position st' (getFirstVariableIndex (jms ! j)) = getTrajectoryPoint t i (Suc k + j)
           \<and> velocity st' (getFirstVariableIndex (jms ! j))
               = (if ?b then 0 else vm i (Suc k + j))"
    "\<forall>v. v \<notin> getFirstVariableIndex ` set jms \<longrightarrow>
           position st' v = position st1 v \<and> velocity st' v = velocity st1 v"
    by blast
  have notin: "?v \<notin> getFirstVariableIndex ` set jms"
    using Cons.prems(1) by auto
  have p1: "position st1 ?v = getTrajectoryPoint t i k"
    "velocity st1 ?v = (if ?b then 0 else vm i k)"
    using iv by (auto simp add: st1_def setVariablePosition_def setVariableVelocity_def)
  have other: "\<forall>v. v \<noteq> ?v \<longrightarrow> position st1 v = position st v \<and> velocity st1 v = velocity st v"
    by (simp add: st1_def setVariablePosition_def setVariableVelocity_def)
  have a: "\<forall>j<length (jm # jms).
           position st' (getFirstVariableIndex ((jm # jms) ! j)) = getTrajectoryPoint t i (k + j)
           \<and> velocity st' (getFirstVariableIndex ((jm # jms) ! j))
               = (if ?b then 0 else vm i (k + j))"
  proof (intro allI impI)
    fix j assume "j < length (jm # jms)"
    then show "position st' (getFirstVariableIndex ((jm # jms) ! j)) = getTrajectoryPoint t i (k + j)
           \<and> velocity st' (getFirstVariableIndex ((jm # jms) ! j))
               = (if ?b then 0 else vm i (k + j))"
      using st'(2,3) notin p1 by (cases j) simp_all
  qed
  have b: "\<forall>v. v \<notin> getFirstVariableIndex ` set (jm # jms) \<longrightarrow>
           position st' v = position st v \<and> velocity st' v = velocity st v"
    using st'(3) other by simp
  show ?case
    using step st'(1) a b by simp
qed

text \<open>With more than seven joints the first way point reads past \<open>initial_vel\<close>.\<close>

lemma set_joints_None:
  "(i = 0 \<or> i = size_t_sub np 1) \<Longrightarrow> k \<le> 7 \<Longrightarrow> 7 < k + length js \<Longrightarrow>
   set_joints vm t np i js k k st = None"
proof (induction js arbitrary: k st)
  case Nil
  then show ?case by simp
next
  case (Cons jm jms)
  then show ?case
    by (cases "k < 7") (simp_all add: Let_def initial_vel_def)
qed

lemma fill_result_Some:
  "(\<forall>i\<in>set is. set_joints vm t np i joints 0 0 st \<noteq> None) \<Longrightarrow>
   fill_result vm t np joints st is acc
     = Some (acc @ map (\<lambda>i. (the (set_joints vm t np i joints 0 0 st), 0.1)) is)"
proof (induction "is" arbitrary: acc)
  case Nil
  then show ?case by simp
next
  case (Cons i "is")
  then show ?case
    by (auto simp add: addSuffixWayPoint_def)
qed

lemma output_trajectory_Some:
  assumes "distinct (map getFirstVariableIndex joints)" "length joints \<le> 7"
  shows "output_trajectory D t joints st
     = Some (map (\<lambda>i. (the (set_joints (velocity_matrix D t) t (num_points t) i joints 0 0 st), 0.1))
               [0..<num_points t])"
proof -
  have "set_joints (velocity_matrix D t) t (num_points t) i joints 0 0 st \<noteq> None" for i
    using set_joints_result [OF assms(1), of i "num_points t" 0 "velocity_matrix D t" t st] assms(2)
    by auto
  then show ?thesis
    by (simp add: output_trajectory_def Let_def fill_result_Some)
qed

text \<open>
  The way points that the output loop produces from a trajectory, for at most seven joints
  with distinct variables.
\<close>

lemma output_trajectory_way_points:
  assumes "distinct (map getFirstVariableIndex joints)" "length joints \<le> 7"
    and "0 < num_points t" "num_points t < 2 ^ 64"
  shows "\<exists>result. output_trajectory D t joints st = Some result
     \<and> length result = num_points t
     \<and> (\<forall>i<num_points t.
           snd (result ! i) = 0.1
           \<and> (\<forall>j<length joints.
                 position (fst (result ! i)) (getFirstVariableIndex (joints ! j)) = trajectory t i j
                 \<and> velocity (fst (result ! i)) (getFirstVariableIndex (joints ! j))
                     = (if i = 0 \<or> i = num_points t - 1 then 0
                        else (\<Sum>k<num_points t. D i k * trajectory t k j)))
           \<and> (\<forall>v. v \<notin> getFirstVariableIndex ` set joints \<longrightarrow>
                 position (fst (result ! i)) v = position st v
                 \<and> velocity (fst (result ! i)) v = velocity st v))"
proof -
  let ?w = "\<lambda>i. the (set_joints (velocity_matrix D t) t (num_points t) i joints 0 0 st)"
  let ?result = "map (\<lambda>i. (?w i, 0.1::real)) [0..<num_points t]"
  have last: "size_t_sub (num_points t) 1 = num_points t - 1"
    using assms(3,4) by (simp add: size_t_sub_small)
  have w: "(\<forall>j<length joints.
              position (?w i) (getFirstVariableIndex (joints ! j)) = trajectory t i j
              \<and> velocity (?w i) (getFirstVariableIndex (joints ! j))
                  = (if i = 0 \<or> i = num_points t - 1 then 0
                     else (\<Sum>k<num_points t. D i k * trajectory t k j)))
           \<and> (\<forall>v. v \<notin> getFirstVariableIndex ` set joints \<longrightarrow>
                 position (?w i) v = position st v \<and> velocity (?w i) v = velocity st v)" for i
    using set_joints_result [OF assms(1), of i "num_points t" 0 "velocity_matrix D t" t st] assms(2)
    unfolding last by (auto simp add: getTrajectoryPoint_def velocity_matrix_def)
  show ?thesis
  proof (intro exI conjI)
    show "output_trajectory D t joints st = Some ?result"
      by (rule output_trajectory_Some [OF assms(1,2)])
    show "length ?result = num_points t" by simp
    show "\<forall>i<num_points t.
           snd (?result ! i) = 0.1
           \<and> (\<forall>j<length joints.
                 position (fst (?result ! i)) (getFirstVariableIndex (joints ! j)) = trajectory t i j
                 \<and> velocity (fst (?result ! i)) (getFirstVariableIndex (joints ! j))
                     = (if i = 0 \<or> i = num_points t - 1 then 0
                        else (\<Sum>k<num_points t. D i k * trajectory t k j)))
           \<and> (\<forall>v. v \<notin> getFirstVariableIndex ` set joints \<longrightarrow>
                 position (fst (?result ! i)) v = position st v
                 \<and> velocity (fst (?result ! i)) v = velocity st v)"
      using w by simp
  qed
qed

lemma solve_buffer:
  "ChompTrajectory_duration n raw 3 (3409 / 100000) g
     = Some (ChompTrajectory_points n raw 89 (3409 / 100000) g)"
proof -
  have "ChompTrajectory_duration n raw 3 (3409 / 100000) g
          = Some (ChompTrajectory_points n raw (nat \<lfloor>double_div 3 (3409 / 100000)\<rfloor> + 1)
                    (3409 / 100000) g)"
    using double_div_solve(2) by (intro ChompTrajectory_duration_points) simp_all
  then show ?thesis by (simp add: double_div_solve(1))
qed

lemma fold_invariant: "(\<And>x t. g (f x t) = g t) \<Longrightarrow> g (fold f xs t) = g t"
  by (induction xs arbitrary: t) simp_all

lemma fix_goal_num_points: "num_points (fix_goal joints gi i t) = num_points t"
  by (simp add: fix_goal_def Let_def set_entry_fields split: JointType.splits bool.splits)

lemma fill_num_points:
  "num_points (fillInMinJerk t) = num_points t"
  "num_points (fillInLinearInterpolation t) = num_points t"
  "num_points (fillInCubicInterpolation t) = num_points t"
proof -
  show "num_points (fillInMinJerk t) = num_points t"
    by (simp add: fillInMinJerk_def Let_def fold_fill_point)
  show "num_points (fillInLinearInterpolation t) = num_points t"
    unfolding fillInLinearInterpolation_def Let_def
    by (intro fold_invariant) (simp add: set_entry_fields)
  show "num_points (fillInCubicInterpolation t) = num_points t"
    unfolding fillInCubicInterpolation_def Let_def
    by (intro fold_invariant) (simp add: set_entry_fields)
qed

lemma initial_fill_num_points: "num_points (fst (initial_fill ext params t)) = num_points t"
  by (simp add: initial_fill_def fill_num_points setTrajectory_def)

text \<open>The first part of \<open>solve\<close> either returns early or gives a buffer of 89 points.\<close>

lemma solve_trajectory_cases:
  assumes "solve_trajectory ext scene req params r = Some x"
  shows "(\<exists>code msgs. x = Inl (failed code msgs r params None)
            \<and> code \<in> {INVALID_ROBOT_STATE, INVALID_GOAL_CONSTRAINTS})
       \<or> (\<exists>t::ChompTrajectory. x = Inr t \<and> num_points t = 89 \<and> start_index t = 1 \<and> end_index t = 87
             \<and> (\<forall>i j. 0 < i \<and> i < 88 \<longrightarrow> trajectory t i j = fresh_storage ext i j))"
proof -
  let ?joints = "getActiveJointModels scene (group_name req)"
  let ?b = "ChompTrajectory_points (length ?joints) (fresh_storage ext) 89 (3409 / 100000)
              (group_name req)"
  have b: "num_points ?b = 89" "start_index ?b = 1" "end_index ?b = 87"
    "trajectory ?b = fresh_storage ext"
    by (simp_all add: ChompTrajectory_points_def init_def to_size_t_def)
  have gi: "size_t_sub 89 (Suc 0) = 88" by (simp add: size_t_sub_def to_size_t_def)
  have fg: "num_points (fold (fix_goal js gi) xs t) = num_points t"
    "start_index (fold (fix_goal js gi) xs t) = start_index t"
    "end_index (fold (fix_goal js gi) xs t) = end_index t" for js gi xs t
    by (rule fold_invariant,
        simp add: fix_goal_def Let_def set_entry_fields split: JointType.splits bool.splits)+
  have fgt: "i \<noteq> gi \<Longrightarrow> trajectory (fold (fix_goal js gi) xs t) i = trajectory t i" for js gi xs t i
    by (induction xs arbitrary: t)
      (simp_all add: fix_goal_def Let_def set_entry_fields split: JointType.splits bool.splits)
  show ?thesis
    using assms
    by (auto simp add: solve_trajectory_def Let_def solve_buffer robotStateToArray_def b gi fg fgt
        split: if_splits)
qed

lemma fill_result_length:
  "fill_result vm t np joints st is acc = Some result \<Longrightarrow>
   length result = length acc + length is"
proof (induction "is" arbitrary: acc)
  case Nil
  then show ?case by simp
next
  case (Cons i "is")
  then show ?case
    by (auto simp add: addSuffixWayPoint_def split: option.splits)
qed

lemma output_trajectory_length:
  "output_trajectory D t joints st = Some result \<Longrightarrow> length result = num_points t"
  using fill_result_length [of "velocity_matrix D t" t "num_points t" joints st "[0..<num_points t]" "[]" result]
  by (simp add: output_trajectory_def Let_def)

lemma solve_output_cases:
  assumes "solve_output ext req params r joints st msgs loop = Some s"
  shows "\<exists>result.
      output_trajectory (getDiffMatrix ext (num_points (optimizer_trajectory loop)))
        (optimizer_trajectory loop) joints st = Some result
      \<and> res_trajectory (res s) = [result]
      \<and> res_processing_time (res s) = [wall_time ext]
      \<and> params_after s = params
      \<and> working_params s
          = Some (setRecoveryParams (learning_rate params) (ridge_factor params)
                    (planning_time_limit params) (max_iterations params) (params_nonconst loop))
      \<and> (returned s \<longrightarrow> res_error_code (res s) = SUCCESS \<and> errors s = msgs)
      \<and> (\<not> returned s \<longrightarrow>
            res_error_code (res s) \<in> {INVALID_MOTION_PLAN, GOAL_CONSTRAINTS_VIOLATED})"
  using assms
  by (auto simp add: solve_output_def Let_def failed_def split: option.splits if_splits)

lemma escalated_chain_fields:
  assumes "\<forall>k. Suc k < length xs \<longrightarrow> xs ! Suc k = escalated (xs ! k)" "k < length xs"
  shows "enable_failure_recovery (xs ! k) = enable_failure_recovery (xs ! 0)
       \<and> max_recovery_attempts (xs ! k) = max_recovery_attempts (xs ! 0)
       \<and> trajectory_initialization_method (xs ! k) = trajectory_initialization_method (xs ! 0)
       \<and> demo_type (xs ! k) = demo_type (xs ! 0)"
  using assms(2)
proof (induction k)
  case 0
  then show ?case by simp
next
  case (Suc k)
  then have "xs ! Suc k = escalated (xs ! k)" using assms(1) by simp
  then show ?case using Suc by (simp add: escalated_fields)
qed

lemma replan_loop_reset:
  "setRecoveryParams (learning_rate params) (ridge_factor params) (planning_time_limit params)
     (max_iterations params) (params_nonconst (replan_loop new_opt params 0 False t []))
   = params"
proof -
  from replan_loop_tried [of new_opt params 0 False t "[]"]
  obtain xs where xs: "xs \<noteq> []" "hd xs = params"
    "\<forall>k. Suc k < length xs \<longrightarrow> xs ! Suc k = escalated (xs ! k)"
    "params_nonconst (replan_loop new_opt params 0 False t []) = last xs"
    by auto
  have "last xs = xs ! (length xs - 1)" "xs ! 0 = params"
    using xs(1,2) by (simp_all add: last_conv_nth hd_conv_nth)
  then have "enable_failure_recovery (last xs) = enable_failure_recovery params
       \<and> max_recovery_attempts (last xs) = max_recovery_attempts params
       \<and> trajectory_initialization_method (last xs) = trajectory_initialization_method params
       \<and> demo_type (last xs) = demo_type params"
    using escalated_chain_fields [OF xs(3), of "length xs - 1"] xs(1) by simp
  then show ?thesis
    unfolding xs(4) by (simp add: setRecoveryParams_def)
qed

text \<open>What \<open>solve\<close> returns, by the place of the return.\<close>

lemma solve_cases:
  assumes "solve ext planning_scene req params r = Some s"
  shows "(\<exists>code msgs. s = failed code msgs r params None
            \<and> code \<in> {FAILURE, INVALID_ROBOT_STATE, INVALID_GOAL_CONSTRAINTS})
    \<or> (\<exists>msgs w. s = failed PLANNING_FAILED msgs r params (Some w))
    \<or> (\<exists>scene (t::ChompTrajectory) result.
          planning_scene = Some scene
          \<and> num_points t = 89
          \<and> output_trajectory (getDiffMatrix ext 89) t
               (getActiveJointModels scene (group_name req))
               (robotStateMsgToRobotState scene (getCurrentState scene)) = Some result
          \<and> res_trajectory (res s) = [result]
          \<and> res_processing_time (res s) = [wall_time ext]
          \<and> params_after s = params
          \<and> working_params s = Some params
          \<and> (returned s \<longrightarrow> res_error_code (res s) = SUCCESS)
          \<and> (\<not> returned s \<longrightarrow>
                res_error_code (res s) \<in> {INVALID_MOTION_PLAN, GOAL_CONSTRAINTS_VIOLATED}))"
proof (cases planning_scene)
  case None
  then have "s = failed FAILURE [''No planning scene initialized.''] r params None"
    using assms by (simp add: solve_def)
  then show ?thesis by blast
next
  case (Some scene)
  then obtain x where x: "solve_trajectory ext scene req params r = Some x"
    using assms by (auto simp add: solve_def split: option.splits)
  show ?thesis
  proof (cases x)
    case (Inl early)
    then have "s = early" using assms Some x by (simp add: solve_def)
    then show ?thesis using solve_trajectory_cases [OF x] Inl by auto
  next
    case (Inr t0)
    then have n0: "num_points t0 = 89" using solve_trajectory_cases [OF x] by auto
    obtain t1 msgs where f: "initial_fill ext params t0 = (t1, msgs)" by force
    then have n1: "num_points t1 = 89"
      using initial_fill_num_points [of ext params t0] n0 by simp
    define loop where "loop = replan_loop (new_ChompOptimizer ext) params 0 False t1 []"
    have nl: "num_points (optimizer_trajectory loop) = 89"
      unfolding loop_def using n1 by (simp add: replan_loop_num_points)
    have reset: "setRecoveryParams (learning_rate params) (ridge_factor params)
        (planning_time_limit params) (max_iterations params) (params_nonconst loop) = params"
      unfolding loop_def by (rule replan_loop_reset)
    have s: "(if \<not> optimizer_ready loop
              then Some (failed PLANNING_FAILED (msgs @ [''Could not initialize optimizer''])
                           r params (Some (params_nonconst loop)))
              else solve_output ext req params r (getActiveJointModels scene (group_name req))
                     (robotStateMsgToRobotState scene (getCurrentState scene)) msgs loop) = Some s"
      using assms Some x Inr f by (simp add: solve_def loop_def Let_def split: if_splits)
    show ?thesis
    proof (cases "optimizer_ready loop")
      case False
      then show ?thesis using s by auto
    next
      case True
      then have "solve_output ext req params r (getActiveJointModels scene (group_name req))
                     (robotStateMsgToRobotState scene (getCurrentState scene)) msgs loop = Some s"
        using s by simp
      from solve_output_cases [OF this] obtain result where
        "output_trajectory (getDiffMatrix ext 89) (optimizer_trajectory loop)
           (getActiveJointModels scene (group_name req))
           (robotStateMsgToRobotState scene (getCurrentState scene)) = Some result"
        "res_trajectory (res s) = [result]" "res_processing_time (res s) = [wall_time ext]"
        "params_after s = params" "working_params s = Some params"
        "returned s \<longrightarrow> res_error_code (res s) = SUCCESS"
        "\<not> returned s \<longrightarrow> res_error_code (res s) \<in> {INVALID_MOTION_PLAN, GOAL_CONSTRAINTS_VIOLATED}"
        unfolding nl reset by blast
      then show ?thesis using Some nl by blast
    qed
  qed
qed

text \<open>What \<open>solve\<close> returns once the recovery loop has been left through its end.\<close>

lemma solve_after_loop:
  assumes "solve_trajectory ext scene req params r = Some (Inr t0)"
    and "loop = replan_loop (new_ChompOptimizer ext) params 0 False
                  (fst (initial_fill ext params t0)) []"
    and "optimizer_ready loop"
  shows "solve ext (Some scene) req params r
           = solve_output ext req params r (getActiveJointModels scene (group_name req))
               (robotStateMsgToRobotState scene (getCurrentState scene))
               (snd (initial_fill ext params t0)) loop"
  using assms by (simp add: solve_def Let_def split_beta)

lemma replan_loop_always_succeeds:
  "replan_loop always_succeeds p 0 False t []
     = \<lparr>optimizer_ready = True, params_nonconst = p, replan_count = 0,
        optimizer = always_succeeds 0 p t, optimizer_trajectory = t, tried = [p]\<rparr>"
  by (simp add: replan_loop_unfold always_succeeds_def)

lemma replan_loop_never_succeeds:
  "optimizer_ready (replan_loop never_succeeds two_recoveries 0 False t [])"
  "\<not> isCollisionFree (optimizer (replan_loop never_succeeds two_recoveries 0 False t []))"
  by (simp_all add: replan_loop.simps two_recoveries_def never_succeeds_def setRecoveryParams_def
      Let_def)

lemma demo_solve_trajectory:
  "\<exists>t. solve_trajectory (demo_collaborators new_opt) demo_scene demo_request params demo_response
         = Some (Inr t)"
  by (simp add: solve_trajectory_def Let_def solve_buffer demo_scene_def demo_request_def)

lemma demo_output:
  "\<exists>result. output_trajectory D t (getActiveJointModels demo_scene g) st = Some result"
  using output_trajectory_Some [of "[one_joint]" D t st]
  by (simp add: demo_scene_def)

lemma demo_never_succeeds:
  "\<exists>s. solve (demo_collaborators never_succeeds) (Some demo_scene) demo_request two_recoveries
          demo_response = Some s
       \<and> \<not> returned s \<and> res_error_code (res s) = INVALID_MOTION_PLAN"
proof -
  let ?ext = "demo_collaborators never_succeeds"
  obtain t0 where t0: "solve_trajectory ?ext demo_scene demo_request two_recoveries demo_response
                         = Some (Inr t0)"
    using demo_solve_trajectory by blast
  define loop where "loop = replan_loop (new_ChompOptimizer ?ext) two_recoveries 0 False
                  (fst (initial_fill ?ext two_recoveries t0)) []"
  have l: "optimizer_ready loop" "\<not> isCollisionFree (optimizer loop)"
    unfolding loop_def by (simp_all add: demo_collaborators_def replan_loop_never_succeeds)
  obtain result where result: "output_trajectory
      (getDiffMatrix ?ext (num_points (optimizer_trajectory loop))) (optimizer_trajectory loop)
      (getActiveJointModels demo_scene (group_name demo_request))
      (robotStateMsgToRobotState demo_scene (getCurrentState demo_scene)) = Some result"
    using demo_output by blast
  show ?thesis
    unfolding solve_after_loop [OF t0 loop_def l(1)]
    using l(2) result by (simp add: solve_output_def Let_def failed_def)
qed

lemma demo_always_succeeds:
  "\<exists>s. solve (demo_collaborators always_succeeds) (Some demo_scene) demo_request params
          demo_response = Some s
       \<and> returned s \<and> res_error_code (res s) = SUCCESS"
proof -
  let ?ext = "demo_collaborators always_succeeds"
  obtain t0 where t0: "solve_trajectory ?ext demo_scene demo_request params demo_response
                         = Some (Inr t0)"
    using demo_solve_trajectory by blast
  define loop where "loop = replan_loop (new_ChompOptimizer ?ext) params 0 False
                  (fst (initial_fill ?ext params t0)) []"
  have l: "optimizer_ready loop" "isCollisionFree (optimizer loop)"
    unfolding loop_def
    by (simp_all add: demo_collaborators_def replan_loop_always_succeeds always_succeeds_def)
  obtain result where result: "output_trajectory
      (getDiffMatrix ?ext (num_points (optimizer_trajectory loop))) (optimizer_trajectory loop)
      (getActiveJointModels demo_scene (group_name demo_request))
      (robotStateMsgToRobotState demo_scene (getCurrentState demo_scene)) = Some result"
    using demo_output by blast
  have "find (\<lambda>c. \<not> configure ?ext c \<or> \<not> decide ?ext c st) cs = None" for st cs
    by (induction cs) (simp_all add: demo_collaborators_def)
  then show ?thesis
    unfolding solve_after_loop [OF t0 loop_def l(1)]
    using l(2) result by (simp add: solve_output_def Let_def)
qed

text \<open>
  Claim C5, as the code has it. Let a call of \<open>solve\<close> reach the output loop, that is,
  end with \<open>SUCCESS\<close>, \<open>INVALID_MOTION_PLAN\<close> or \<open>GOAL_CONSTRAINTS_VIOLATED\<close>, for a
  group of at most seven active joints with distinct variables. Then the response holds
  one trajectory of 89 way points, built from a buffer \<open>t\<close> of 89 points: way point \<open>i\<close>
  has, for every joint \<open>j\<close>, the position \<open>t(i, j)\<close>; its velocity is zero on the first
  and the last way point and \<open>(D \<cdot> p)(i)\<close> on the others, for the finite-difference matrix
  \<open>D\<close> and the column \<open>p\<close> of joint \<open>j\<close>; and every way point, the first included, has
  the duration 0.1 from the previous one.
\<close>

theorem C5_output_way_points:
  assumes "solve ext (Some scene) req params r = Some s"
    and "res_error_code (res s) \<in> {SUCCESS, INVALID_MOTION_PLAN, GOAL_CONSTRAINTS_VIOLATED}"
    and "joints = getActiveJointModels scene (group_name req)"
    and "distinct (map getFirstVariableIndex joints)" "length joints \<le> 7"
  shows "\<exists>(t::ChompTrajectory) result. num_points t = 89 \<and> res_trajectory (res s) = [result] \<and> length result = 89
     \<and> (\<forall>i<89.
           snd (result ! i) = 0.1
           \<and> (\<forall>j<length joints.
                 position (fst (result ! i)) (getFirstVariableIndex (joints ! j)) = trajectory t i j
                 \<and> velocity (fst (result ! i)) (getFirstVariableIndex (joints ! j))
                     = (if i = 0 \<or> i = 88 then 0
                        else (\<Sum>k<89. getDiffMatrix ext 89 i k * trajectory t k j))))"
proof -
  have "\<not> (\<exists>code msgs w. s = failed code msgs r params w
             \<and> code \<in> {FAILURE, INVALID_ROBOT_STATE, INVALID_GOAL_CONSTRAINTS, PLANNING_FAILED})"
    using assms(2) by (auto simp add: failed_def)
  with solve_cases [OF assms(1)]
  obtain t result where t: "num_points t = 89"
    "output_trajectory (getDiffMatrix ext 89) t joints
       (robotStateMsgToRobotState scene (getCurrentState scene)) = Some result"
    "res_trajectory (res s) = [result]"
    unfolding assms(3) by blast
  have "0 < num_points t" "num_points t < 2 ^ 64" using t(1) by simp_all
  from output_trajectory_way_points [OF assms(4,5) this, of "getDiffMatrix ext 89"
      "robotStateMsgToRobotState scene (getCurrentState scene)"]
  have len: "length result = 89"
    and wp: "\<forall>i<89. snd (result ! i) = 0.1
           \<and> (\<forall>j<length joints.
                 position (fst (result ! i)) (getFirstVariableIndex (joints ! j)) = trajectory t i j
                 \<and> velocity (fst (result ! i)) (getFirstVariableIndex (joints ! j))
                     = (if i = 0 \<or> i = 88 then 0
                        else (\<Sum>k<89. getDiffMatrix ext 89 i k * trajectory t k j)))"
    unfolding t by simp_all
  show ?thesis
    using t(1,3) len wp by blast
qed


text \<open>
  The first way point is added with the duration 0.1 like every other, not with zero.
\<close>

theorem C5_first_duration_counterexample:
  "map_option (snd \<circ> way_point 0)
     (solve (demo_collaborators always_succeeds) (Some demo_scene) demo_request two_recoveries
        demo_response) = Some (1 / 10)
   \<and> (1 / 10 :: real) \<noteq> 0"
proof -
  obtain s where s: "solve (demo_collaborators always_succeeds) (Some demo_scene) demo_request
      two_recoveries demo_response = Some s" "returned s" "res_error_code (res s) = SUCCESS"
    using demo_always_succeeds by blast
  have "\<not> (\<exists>code msgs w. s = failed code msgs demo_response two_recoveries w)"
    using s(2) by (auto simp add: failed_def)
  with solve_cases [OF s(1)]
  obtain t :: ChompTrajectory and result where t: "num_points t = 89"
    "output_trajectory (getDiffMatrix (demo_collaborators always_succeeds) 89) t [one_joint]
       (robotStateMsgToRobotState demo_scene (getCurrentState demo_scene)) = Some result"
    "res_trajectory (res s) = [result]"
    by (auto simp add: demo_scene_def)
  have "distinct (map getFirstVariableIndex [one_joint])" "length [one_joint] \<le> 7"
    "0 < num_points t" "num_points t < 2 ^ 64"
    using t(1) by simp_all
  from output_trajectory_way_points [OF this,
      of "getDiffMatrix (demo_collaborators always_succeeds) 89"
        "robotStateMsgToRobotState demo_scene (getCurrentState demo_scene)"]
  have "snd (result ! 0) = 0.1"
    unfolding t by simp
  then show ?thesis
    using s(1) t(3) by (simp add: way_point_def)
qed

text \<open>
  On the small problem, with a matrix \<open>D\<close> for which \<open>(D \<cdot> p)(i) = p(0)\<close>: the first and
  last way point have velocity zero, way point 5 has the velocity \<open>p(0)\<close>, which is the
  position of the first way point, and the duration 0.1.
\<close>

theorem C5_output_way_points_witness:
  "distinct (map getFirstVariableIndex (getActiveJointModels demo_scene (group_name demo_request)))
   \<and> length (getActiveJointModels demo_scene (group_name demo_request)) \<le> 7
   \<and> map_option (res_error_code \<circ> res)
        (solve (demo_collaborators always_succeeds) (Some demo_scene) demo_request unknown_method
           demo_response) = Some SUCCESS
   \<and> velocity (fst (way_point 0 (the (solve (demo_collaborators always_succeeds) (Some demo_scene)
        demo_request unknown_method demo_response)))) 0 = 0
   \<and> velocity (fst (way_point 5 (the (solve (demo_collaborators always_succeeds) (Some demo_scene)
        demo_request unknown_method demo_response)))) 0
      = position (fst (way_point 0 (the (solve (demo_collaborators always_succeeds)
          (Some demo_scene) demo_request unknown_method demo_response)))) 0
   \<and> velocity (fst (way_point 88 (the (solve (demo_collaborators always_succeeds) (Some demo_scene)
        demo_request unknown_method demo_response)))) 0 = 0
   \<and> snd (way_point 5 (the (solve (demo_collaborators always_succeeds) (Some demo_scene)
        demo_request unknown_method demo_response))) = 1 / 10"
proof -
  let ?ext = "demo_collaborators always_succeeds"
  let ?joints = "getActiveJointModels demo_scene (group_name demo_request)"
  obtain s where s: "solve ?ext (Some demo_scene) demo_request unknown_method demo_response
      = Some s" "returned s" "res_error_code (res s) = SUCCESS"
    using demo_always_succeeds by blast
  have j: "?joints = [one_joint]" by (simp add: demo_scene_def)
  have h: "res_error_code (res s) \<in> {SUCCESS, INVALID_MOTION_PLAN, GOAL_CONSTRAINTS_VIOLATED}"
    "distinct (map getFirstVariableIndex ?joints)" "length ?joints \<le> 7"
    using s(3) by (simp_all add: j)
  from C5_output_way_points [OF s(1) h(1) refl h(2,3)]
  obtain t :: ChompTrajectory and result where r: "res_trajectory (res s) = [result]"
    and w: "\<forall>i<89.
           snd (result ! i) = 0.1
           \<and> (\<forall>j<length ?joints.
                 position (fst (result ! i)) (getFirstVariableIndex (?joints ! j)) = trajectory t i j
                 \<and> velocity (fst (result ! i)) (getFirstVariableIndex (?joints ! j))
                     = (if i = 0 \<or> i = 88 then 0
                        else (\<Sum>k<89. getDiffMatrix ?ext 89 i k * trajectory t k j)))"
    by blast
  have d: "(\<Sum>k<89. getDiffMatrix ?ext 89 i k * trajectory t k 0) = trajectory t 0 0" for i
    by (simp add: demo_collaborators_def if_distrib [of "\<lambda>x. x * _"] sum.delta cong: if_cong)
  have v: "position (fst (result ! 0)) 0 = trajectory t 0 0" "velocity (fst (result ! 0)) 0 = 0"
    "velocity (fst (result ! 5)) 0 = trajectory t 0 0" "velocity (fst (result ! 88)) 0 = 0"
    "snd (result ! 5) = 1 / 10"
    using w [rule_format, of 0] w [rule_format, of 5] w [rule_format, of 88] d [of 5]
    by (simp_all add: j one_joint_def)
  show ?thesis
    using s(1,3) h(2,3) v by (simp add: way_point_def r)
qed

text \<open>
  Claim C8, as the code has it. A call of \<open>solve\<close> that returns false ends in one of
  three ways. With \<open>FAILURE\<close>, \<open>INVALID_ROBOT_STATE\<close> or \<open>INVALID_GOAL_CONSTRAINTS\<close>, before
  the recovery loop (no working copy of the parameters was made), the trajectory and
  processing time of the response are as the caller passed them. With \<open>PLANNING_FAILED\<close>,
  for an optimizer that did not initialise, they are as the caller passed them too. With
  \<open>INVALID_MOTION_PLAN\<close> or \<open>GOAL_CONSTRAINTS_VIOLATED\<close>, after the loop, the response holds
  the whole trajectory of 89 way points.
\<close>

theorem C8_failure_returns:
  assumes "solve ext planning_scene req params r = Some s" and "\<not> returned s"
  shows "(res_error_code (res s) \<in> {FAILURE, INVALID_ROBOT_STATE, INVALID_GOAL_CONSTRAINTS}
            \<and> working_params s = None
            \<and> res_trajectory (res s) = res_trajectory r
            \<and> res_processing_time (res s) = res_processing_time r)
       \<or> (res_error_code (res s) = PLANNING_FAILED
            \<and> res_trajectory (res s) = res_trajectory r
            \<and> res_processing_time (res s) = res_processing_time r)
       \<or> (res_error_code (res s) \<in> {INVALID_MOTION_PLAN, GOAL_CONSTRAINTS_VIOLATED}
            \<and> (\<exists>result. res_trajectory (res s) = [result] \<and> length result = 89))"
  using solve_cases [OF assms(1)] assms(2)
  by (elim disjE exE conjE) (auto simp add: failed_def dest: output_trajectory_length)

text \<open>Without a planning scene the response keeps its empty list of trajectories.\<close>

theorem C8_failure_returns_witness:
  "solve (demo_collaborators always_succeeds) None demo_request two_recoveries demo_response
     = Some (failed FAILURE [''No planning scene initialized.''] demo_response two_recoveries None)
   \<and> \<not> returned (failed FAILURE [''No planning scene initialized.''] demo_response
                   two_recoveries None)
   \<and> res_trajectory (res (failed FAILURE [''No planning scene initialized.''] demo_response
                            two_recoveries None)) = []"
proof -
  have s: "solve (demo_collaborators always_succeeds) None demo_request two_recoveries
             demo_response
           = Some (failed FAILURE [''No planning scene initialized.''] demo_response
                     two_recoveries None)"
    by (simp add: solve_def)
  have n: "\<not> returned (failed FAILURE [''No planning scene initialized.''] demo_response
                        two_recoveries None)"
    by (simp add: failed_def)
  from C8_failure_returns [OF s n] show ?thesis
    using s n by (simp add: failed_def demo_response_def)
qed

text \<open>
  On the small problem with an optimizer whose result is never free of collisions,
  \<open>solve\<close> returns false with \<open>INVALID_MOTION_PLAN\<close>, and the response, which held no
  trajectory, now holds one of 89 way points.
\<close>

theorem C8_trajectory_on_failure_counterexample:
  "map_option returned
     (solve (demo_collaborators never_succeeds) (Some demo_scene) demo_request two_recoveries
        demo_response) = Some False
   \<and> map_option (res_error_code \<circ> res)
       (solve (demo_collaborators never_succeeds) (Some demo_scene) demo_request two_recoveries
          demo_response) = Some INVALID_MOTION_PLAN
   \<and> map_option way_point_counts
       (solve (demo_collaborators never_succeeds) (Some demo_scene) demo_request two_recoveries
          demo_response) = Some [89]
   \<and> res_trajectory demo_response = []"
proof -
  obtain s where s: "solve (demo_collaborators never_succeeds) (Some demo_scene) demo_request
      two_recoveries demo_response = Some s" "\<not> returned s"
      "res_error_code (res s) = INVALID_MOTION_PLAN"
    using demo_never_succeeds by blast
  have "\<not> (\<exists>code msgs w. s = failed code msgs demo_response two_recoveries w
             \<and> code \<in> {FAILURE, INVALID_ROBOT_STATE, INVALID_GOAL_CONSTRAINTS, PLANNING_FAILED})"
    using s(3) by (auto simp add: failed_def)
  with solve_cases [OF s(1)]
  obtain t :: ChompTrajectory and D joints st result where t: "num_points t = 89"
    "output_trajectory D t joints st = Some result" "res_trajectory (res s) = [result]"
    by blast
  have "way_point_counts s = [89]"
    using output_trajectory_length [OF t(2)] t(1,3) by (simp add: way_point_counts_def)
  then show ?thesis
    using s by (simp add: demo_response_def)
qed

text \<open>
  Claim C9. Whatever \<open>solve\<close> returns, the caller's parameter set is as it was before
  the call: \<open>solve\<close> escalates a copy. When the recovery loop is left through its end,
  the copy is reset to the caller's values as well.
\<close>

theorem C9_parameters_restored:
  assumes "solve ext planning_scene req params r = Some s"
  shows "params_after s = params
       \<and> (res_error_code (res s) \<in> {SUCCESS, INVALID_MOTION_PLAN, GOAL_CONSTRAINTS_VIOLATED} \<longrightarrow>
            working_params s = Some params)"
  using solve_cases [OF assms]
  by (elim disjE exE conjE) (auto simp add: failed_def)

text \<open>
  On the small problem with an optimizer that never succeeds, the loop escalates twice,
  and the caller's parameters and the reset copy are the parameters passed.
\<close>

theorem C9_parameters_restored_witness:
  "map_option params_after
     (solve (demo_collaborators never_succeeds) (Some demo_scene) demo_request two_recoveries
        demo_response) = Some two_recoveries
   \<and> map_option working_params
       (solve (demo_collaborators never_succeeds) (Some demo_scene) demo_request two_recoveries
          demo_response) = Some (Some two_recoveries)
   \<and> length (tried (replan_loop never_succeeds two_recoveries 0 False five_points [])) = 3"
proof -
  obtain s where s: "solve (demo_collaborators never_succeeds) (Some demo_scene) demo_request
      two_recoveries demo_response = Some s" "res_error_code (res s) = INVALID_MOTION_PLAN"
    using demo_never_succeeds by blast
  have "length (tried (replan_loop never_succeeds two_recoveries 0 False five_points [])) = 3"
    by (simp add: replan_loop.simps two_recoveries_def never_succeeds_def setRecoveryParams_def
        Let_def)
  then show ?thesis
    using C9_parameters_restored [OF s(1)] s by simp
qed

text \<open>
  Claim C10. Let the configured method be none of the four, and let the first part of
  \<open>solve\<close> give the buffer \<open>t\<close>. The initial fill leaves \<open>t\<close> as it is and logs the
  error; rows 1 to 87 of \<open>t\<close> hold what the fresh storage held; \<open>solve\<close> goes on to the
  recovery loop with \<open>t\<close> and ends as the loop and the last part decide. If the first
  optimizer initialises and succeeds without collision and every goal constraint is
  accepted, for at most seven joints with distinct variables, \<open>solve\<close> returns true with
  \<open>SUCCESS\<close>, the logged error being the only one.
\<close>

theorem C10_unknown_method:
  assumes "trajectory_initialization_method params
             \<notin> {''quintic-spline'', ''linear'', ''cubic'', ''equal''}"
    and "solve_trajectory ext scene req params r = Some (Inr t)"
  defines "msg \<equiv> ''invalid interpolation method specified in the chomp_planner file''"
  defines "loop \<equiv> replan_loop (new_ChompOptimizer ext) params 0 False t []"
  defines "joints \<equiv> getActiveJointModels scene (group_name req)"
  shows "initial_fill ext params t = (t, [msg])
    \<and> (\<forall>i j. 0 < i \<and> i < 88 \<longrightarrow> trajectory t i j = fresh_storage ext i j)
    \<and> solve ext (Some scene) req params r
        = (if \<not> optimizer_ready loop
           then Some (failed PLANNING_FAILED [msg, ''Could not initialize optimizer''] r params
                        (Some (params_nonconst loop)))
           else solve_output ext req params r joints
                  (robotStateMsgToRobotState scene (getCurrentState scene)) [msg] loop)
    \<and> (isInitialized (new_ChompOptimizer ext 0 params t)
         \<and> optimize (new_ChompOptimizer ext 0 params t)
         \<and> isCollisionFree (new_ChompOptimizer ext 0 params t)
         \<and> (\<forall>c st. configure ext c \<and> decide ext c st)
         \<and> distinct (map getFirstVariableIndex joints) \<and> length joints \<le> 7
        \<longrightarrow> (\<exists>s. solve ext (Some scene) req params r = Some s \<and> returned s
                 \<and> res_error_code (res s) = SUCCESS \<and> errors s = [msg]))"
proof -
  have fill: "initial_fill ext params t = (t, [msg])"
    using assms(1) by (simp add: initial_fill_def msg_def)
  have raw: "\<forall>i j. 0 < i \<and> i < 88 \<longrightarrow> trajectory t i j = fresh_storage ext i j"
    using solve_trajectory_cases [OF assms(2)] by auto
  have s: "solve ext (Some scene) req params r
        = (if \<not> optimizer_ready loop
           then Some (failed PLANNING_FAILED [msg, ''Could not initialize optimizer''] r params
                        (Some (params_nonconst loop)))
           else solve_output ext req params r joints
                  (robotStateMsgToRobotState scene (getCurrentState scene)) [msg] loop)"
    using assms(2) fill by (simp add: solve_def Let_def loop_def joints_def)
  have ok: "\<exists>s. solve ext (Some scene) req params r = Some s \<and> returned s
                 \<and> res_error_code (res s) = SUCCESS \<and> errors s = [msg]"
    if a: "isInitialized (new_ChompOptimizer ext 0 params t)"
      "optimize (new_ChompOptimizer ext 0 params t)"
      "isCollisionFree (new_ChompOptimizer ext 0 params t)"
      "\<forall>c st. configure ext c \<and> decide ext c st"
      "distinct (map getFirstVariableIndex joints)" "length joints \<le> 7"
  proof -
    have l: "loop = \<lparr>optimizer_ready = True, params_nonconst = params, replan_count = 0,
                     optimizer = new_ChompOptimizer ext 0 params t,
                     optimizer_trajectory
                       = t\<lparr>trajectory := optimized (new_ChompOptimizer ext 0 params t)\<rparr>,
                     tried = [params]\<rparr>"
      using a(1,2) by (simp add: loop_def replan_loop_unfold)
    have f: "find (\<lambda>c. False) cs = None" for cs :: "JointConstraint list"
      by (induction cs) simp_all
    show ?thesis
      unfolding s using a(3,4)
      by (simp add: l solve_output_def Let_def output_trajectory_Some [OF a(5,6)] f)
  qed
  show ?thesis
    using fill raw s ok by blast
qed

text \<open>The small problem with the method \<open>spline\<close> and an optimizer that succeeds.\<close>

theorem C10_unknown_method_witness:
  "trajectory_initialization_method unknown_method
     \<notin> {''quintic-spline'', ''linear'', ''cubic'', ''equal''}
   \<and> map_option returned
       (solve (demo_collaborators always_succeeds) (Some demo_scene) demo_request unknown_method
          demo_response) = Some True
   \<and> map_option errors
       (solve (demo_collaborators always_succeeds) (Some demo_scene) demo_request unknown_method
          demo_response)
      = Some [''invalid interpolation method specified in the chomp_planner file'']"
proof -
  let ?ext = "demo_collaborators always_succeeds"
  have m: "trajectory_initialization_method unknown_method
     \<notin> {''quintic-spline'', ''linear'', ''cubic'', ''equal''}"
    by (simp add: unknown_method_def)
  obtain t where t: "solve_trajectory ?ext demo_scene demo_request unknown_method demo_response
                       = Some (Inr t)"
    using demo_solve_trajectory by blast
  have "isInitialized (new_ChompOptimizer ?ext 0 unknown_method t)
         \<and> optimize (new_ChompOptimizer ?ext 0 unknown_method t)
         \<and> isCollisionFree (new_ChompOptimizer ?ext 0 unknown_method t)
         \<and> (\<forall>c st. configure ?ext c \<and> decide ?ext c st)
         \<and> distinct (map getFirstVariableIndex
                        (getActiveJointModels demo_scene (group_name demo_request)))
         \<and> length (getActiveJointModels demo_scene (group_name demo_request)) \<le> 7"
    by (simp add: demo_collaborators_def always_succeeds_def demo_scene_def)
  with C10_unknown_method [OF m t]
  obtain s where "solve ?ext (Some demo_scene) demo_request unknown_method demo_response = Some s"
    "returned s"
    "errors s = [''invalid interpolation method specified in the chomp_planner file'']"
    by blast
  then show ?thesis using m by simp
qed
section \<open>The goal adjustment\<close>











section \<open>Filling a buffer from a trajectory: the rows\<close>






















end
